theory Spec2Isabelle
  imports Complex_Main "HOL-Library.Sublist"
begin

section \<open>The game client of \<^verbatim>\<open>game.js\<close>\<close>

text \<open>
  The class \<^verbatim>\<open>GameClient\<close> keeps the whole session in the fields of one object;
  the model keeps them in one record and every method takes the record and returns
  the updated one. JavaScript numbers that hold coordinates are modelled as
  \<^typ>\<open>real\<close>; health, counters, lifetimes and millisecond clock readings only ever
  hold integers and are \<^typ>\<open>int\<close>. The source computes in double precision. Where
  a decision hangs on the computed number (the spawn positions, the draw of an item's
  type and the two distance tests) every operation is rounded to the nearest double,
  see \<open>fl\<close> below; the camera offsets and the positions of the floating texts are
  computed exactly. Infinity and NaN are outside the model. Objects that are
  dictionaries keyed by an id are maps of their own properties; what a plain object
  inherits from its prototype is not modelled, see \<open>movePlayer\<close>. A record of the
  model is a value: the source never changes a player object in place, so that two
  references to one object can only come apart when one of them is replaced or deleted,
  which the model shows as two fields that differ. Drawing, audio, image loading, the
  keyboard and the socket do not write any of the fields below and are left out.
\<close>

subsection \<open>Data\<close>

datatype facing = north | south | east | west

record player =
  playerId :: string
  username :: string
  player_x :: real
  player_y :: real
  player_facing :: facing
  animationFrame :: int
  avatar :: string

text \<open>
  The partial player of a \<^verbatim>\<open>players_moved\<close> message: every field may be missing.
\<close>

record player_delta =
  d_playerId :: "string option"
  d_username :: "string option"
  d_x :: "real option"
  d_y :: "real option"
  d_facing :: "facing option"
  d_animationFrame :: "int option"
  d_avatar :: "string option"

record avatar_def =
  avatar_name :: string
  frames_north :: "string list"
  frames_south :: "string list"
  frames_east :: "string list"

datatype itemType = banana | apple | blueberry

record item =
  item_id :: nat
  item_type :: itemType
  item_x :: real
  item_y :: real
  collected :: bool

record snake =
  snake_id :: nat
  snake_x :: real
  snake_y :: real

record floatingText =
  text_x :: real
  text_y :: real
  text_text :: string
  text_color :: string
  life :: int
  maxLife :: int
  velocityY :: real

record inventory_counts =
  bananas :: int
  apples :: int
  blueberries :: int

record game =
  worldWidth :: real
  worldHeight :: real
  canvas_width :: real
  canvas_height :: real
  game_playerId :: "string option"
  myPlayer :: "player option"
  players :: "string \<rightharpoonup> player"
  avatars :: "string \<rightharpoonup> avatar_def"
  cameraX :: real
  cameraY :: real
  playerHealth :: int
  items :: "item list"
  inventory :: inventory_counts
  itemSize :: real
  snakes :: "snake list"
  snakeWidth :: real
  snakeHeight :: real
  lastSnakeDamage :: int
  floatingTexts :: "floatingText list"

subsection \<open>Double precision\<close>

text \<open>
  \<open>rne\<close> rounds a real to the nearest integer, a tie to the even one. \<open>fl\<close> rounds
  a real to the nearest number with a 53-bit significand, ties to even: the value of an
  arithmetic operation on doubles is \<open>fl\<close> of its exact result. This is also how
  \<^verbatim>\<open>Math.sqrt\<close> and \<^verbatim>\<open>Math.pow(v, 2)\<close> are taken. The exponent is not
  bounded, so overflow and gradual underflow are not modelled.
\<close>

definition rne :: "real \<Rightarrow> int" where
  "rne y =
     (let f = \<lfloor>y\<rfloor>; r = y - of_int f
      in if r < 1 / 2 then f else if 1 / 2 < r then f + 1 else if even f then f else f + 1)"

definition fl :: "real \<Rightarrow> real" where
  "fl x =
     (if x = 0 then 0
      else (let u = 2 powr of_int (\<lfloor>log 2 \<bar>x\<bar>\<rfloor> - 52) in u * of_int (rne (x / u))))"

text \<open>The literal \<^verbatim>\<open>0.1\<close> of the source is the double nearest to one tenth.\<close>

definition double_0_1 :: real where
  "double_0_1 = 3602879701896397 / 2 ^ 55"

subsection \<open>Camera\<close>

text \<open>
  \<^verbatim>\<open>updateCamera\<close>: nothing without a local player; otherwise each axis is either
  clamped with \<^verbatim>\<open>Math.max(0, Math.min(naive, world - canvas))\<close> or centred.
\<close>

definition updateCamera :: "game \<Rightarrow> game" where
  "updateCamera g =
     (case myPlayer g of
        None \<Rightarrow> g
      | Some p \<Rightarrow>
          (let g1 = g\<lparr>cameraX := player_x p - canvas_width g / 2,
                      cameraY := player_y p - canvas_height g / 2\<rparr>;
               g2 = (if canvas_width g1 < worldWidth g1
                     then g1\<lparr>cameraX := max 0 (min (cameraX g1) (worldWidth g1 - canvas_width g1))\<rparr>
                     else g1\<lparr>cameraX := (worldWidth g1 - canvas_width g1) / 2\<rparr>)
           in (if canvas_height g2 < worldHeight g2
               then g2\<lparr>cameraY := max 0 (min (cameraY g2) (worldHeight g2 - canvas_height g2))\<rparr>
               else g2\<lparr>cameraY := (worldHeight g2 - canvas_height g2) / 2\<rparr>)))"

text \<open>
  The clamp as the specification words it: a value below the interval goes to its lower
  end, a value above it to its upper end, any other value stays.
\<close>

definition clamp_into :: "real \<Rightarrow> real \<Rightarrow> real \<Rightarrow> real" where
  "clamp_into lo hi v = (if v < lo then lo else if hi < v then hi else v)"

subsection \<open>Floating texts\<close>

definition addFloatingText :: "real \<Rightarrow> real \<Rightarrow> string \<Rightarrow> string \<Rightarrow> game \<Rightarrow> game" where
  "addFloatingText x y txt color g =
     g\<lparr>floatingTexts := floatingTexts g @
         [\<lparr>text_x = x, text_y = y, text_text = txt, text_color = color,
           life = 60, maxLife = 60, velocityY = - 2\<rparr>]\<rparr>"

text \<open>
  The callback of the \<^verbatim>\<open>filter\<close> in \<^verbatim>\<open>updateFloatingTexts\<close> first changes the
  text it is given and then answers whether to keep it.
\<close>

definition age_text :: "floatingText \<Rightarrow> floatingText" where
  "age_text t = (let t1 = t\<lparr>life := life t - 1\<rparr> in t1\<lparr>text_y := text_y t1 + velocityY t1\<rparr>)"

fun filter_aging :: "floatingText list \<Rightarrow> floatingText list" where
  "filter_aging [] = []"
| "filter_aging (t # ts) =
     (let t' = age_text t in if life t' > 0 then t' # filter_aging ts else filter_aging ts)"

definition updateFloatingTexts :: "game \<Rightarrow> game" where
  "updateFloatingTexts g = g\<lparr>floatingTexts := filter_aging (floatingTexts g)\<rparr>"

subsection \<open>Items\<close>

text \<open>
  \<^verbatim>\<open>spawnItems\<close> and \<^verbatim>\<open>spawnSnakes\<close> draw from \<^verbatim>\<open>Math.random\<close>; the draws
  are a parameter: for the \<open>i\<close>-th item the three numbers drawn for its type, its x and
  its y, each in \<open>[0, 1)\<close>. \<^verbatim>\<open>itemTypes[Math.floor(r * 3)]\<close> is written as a
  choice on the floor of the rounded product; a position is the rounded product of its
  draw and the rounded difference of the two sizes.
\<close>

definition pickItemType :: "real \<Rightarrow> itemType" where
  "pickItemType r =
     (let k = \<lfloor>fl (r * 3)\<rfloor> in if k = 0 then banana else if k = 1 then apple else blueberry)"

definition spawnItems :: "(nat \<Rightarrow> real \<times> real \<times> real) \<Rightarrow> game \<Rightarrow> game" where
  "spawnItems rnd g =
     g\<lparr>items := items g @
         map (\<lambda>i. case rnd i of (r, u, v) \<Rightarrow>
                \<lparr>item_id = i, item_type = pickItemType r,
                 item_x = fl (u * fl (worldWidth g - itemSize g)),
                 item_y = fl (v * fl (worldHeight g - itemSize g)),
                 collected = False\<rparr>) [0..<50]\<rparr>"

definition inc_inventory :: "itemType \<Rightarrow> inventory_counts \<Rightarrow> inventory_counts" where
  "inc_inventory ty c =
     (case ty of
        banana \<Rightarrow> c\<lparr>bananas := bananas c + 1\<rparr>
      | apple \<Rightarrow> c\<lparr>apples := apples c + 1\<rparr>
      | blueberry \<Rightarrow> c\<lparr>blueberries := blueberries c + 1\<rparr>)"

text \<open>
  \<^verbatim>\<open>collectItem\<close> is only called inside the loop of \<^verbatim>\<open>checkItemCollisions\<close>,
  behind its guard on \<^verbatim>\<open>this.myPlayer\<close>; \<open>p\<close> is that player. The method changes
  the item it is given and the game.
\<close>

definition collectItem :: "player \<Rightarrow> item \<Rightarrow> game \<Rightarrow> item \<times> game" where
  "collectItem p it g =
     (let it' = it\<lparr>collected := True\<rparr>;
          g1 = g\<lparr>inventory := inc_inventory (item_type it') (inventory g)\<rparr>;
          g2 = g1\<lparr>playerHealth := min 100 (playerHealth g1 + 5)\<rparr>
      in (it', addFloatingText (player_x p) (player_y p - 30) ''+5'' ''#00FF00'' g2))"

text \<open>
  The distance of \<^verbatim>\<open>checkItemCollisions\<close>, operation by operation:
  \<^verbatim>\<open>Math.sqrt(Math.pow(px - (x + r), 2) + Math.pow(py - (y + r), 2))\<close>.
\<close>

definition item_distance :: "player \<Rightarrow> item \<Rightarrow> game \<Rightarrow> real" where
  "item_distance p it g =
     (let itemRadius = fl (itemSize g / 2)
      in fl (sqrt (fl (fl ((fl (player_x p - fl (item_x it + itemRadius)))\<^sup>2) +
                       fl ((fl (player_y p - fl (item_y it + itemRadius)))\<^sup>2)))))"

text \<open>The body of the \<^verbatim>\<open>forEach\<close> in \<^verbatim>\<open>checkItemCollisions\<close>.\<close>

definition checkItem :: "player \<Rightarrow> item \<Rightarrow> game \<Rightarrow> item \<times> game" where
  "checkItem p it g =
     (if collected it then (it, g)
      else
        (let playerRadius = 15;
             itemRadius = fl (itemSize g / 2);
             distance = item_distance p it g;
             overlapThreshold = fl (itemRadius * double_0_1);
             totalRadius = fl (playerRadius + itemRadius)
         in if distance < fl (totalRadius - overlapThreshold) then collectItem p it g
            else (it, g)))"

text \<open>
  The loop visits the items in order; each visit may change the visited item in place
  and the rest of the game. The list of items is rebuilt from the visited items.
\<close>

fun forEach_item :: "player \<Rightarrow> item list \<Rightarrow> game \<Rightarrow> item list \<times> game" where
  "forEach_item p [] g = ([], g)"
| "forEach_item p (it # its) g =
     (case checkItem p it g of
        (it', g') \<Rightarrow> (case forEach_item p its g' of (its', g'') \<Rightarrow> (it' # its', g'')))"

definition checkItemCollisions :: "game \<Rightarrow> game" where
  "checkItemCollisions g =
     (case myPlayer g of
        None \<Rightarrow> g
      | Some p \<Rightarrow> (case forEach_item p (items g) g of (its, g') \<Rightarrow> g'\<lparr>items := its\<rparr>))"

subsection \<open>Snakes\<close>

definition spawnSnakes :: "(nat \<Rightarrow> real \<times> real) \<Rightarrow> game \<Rightarrow> game" where
  "spawnSnakes rnd g =
     g\<lparr>snakes := snakes g @
         map (\<lambda>i. case rnd i of (u, v) \<Rightarrow>
                \<lparr>snake_id = i,
                 snake_x = fl (u * fl (worldWidth g - snakeWidth g)),
                 snake_y = fl (v * fl (worldHeight g - snakeHeight g))\<rparr>) [0..<15]\<rparr>"

definition takeSnakeDamage :: "player \<Rightarrow> game \<Rightarrow> game" where
  "takeSnakeDamage p g =
     addFloatingText (player_x p) (player_y p - 30) ''-5'' ''#FF0000''
       (g\<lparr>playerHealth := max 0 (playerHealth g - 5)\<rparr>)"

definition snake_distance :: "player \<Rightarrow> snake \<Rightarrow> game \<Rightarrow> real" where
  "snake_distance p sn g =
     (let snakeCenterX = fl (snake_x sn + fl (snakeWidth g / 2));
          snakeCenterY = fl (snake_y sn + fl (snakeHeight g / 2))
      in fl (sqrt (fl (fl ((fl (player_x p - snakeCenterX))\<^sup>2) +
                       fl ((fl (player_y p - snakeCenterY))\<^sup>2)))))"

text \<open>The body of the \<^verbatim>\<open>forEach\<close> in \<^verbatim>\<open>checkSnakeCollisions\<close>.\<close>

definition checkSnake :: "player \<Rightarrow> int \<Rightarrow> snake \<Rightarrow> game \<Rightarrow> game" where
  "checkSnake p currentTime sn g =
     (let distance = snake_distance p sn g;
          playerRadius = 15;
          snakeRadius = fl (max (snakeWidth g) (snakeHeight g) / 2);
          totalRadius = fl (playerRadius + snakeRadius)
      in if distance < totalRadius
         then (takeSnakeDamage p g)\<lparr>lastSnakeDamage := currentTime\<rparr>
         else g)"

text \<open>
  \<^verbatim>\<open>Date.now()\<close> is read once, before the loop, and is the parameter
  \<open>currentTime\<close>. The cooldown test stands before the loop, not inside it.
\<close>

definition checkSnakeCollisions :: "int \<Rightarrow> game \<Rightarrow> game" where
  "checkSnakeCollisions currentTime g =
     (case myPlayer g of
        None \<Rightarrow> g
      | Some p \<Rightarrow>
          if currentTime - lastSnakeDamage g < 1000 then g
          else fold (checkSnake p currentTime) (snakes g) g)"

subsection \<open>Messages of the server\<close>

datatype message =
    JoinGameOk string "string \<rightharpoonup> player" "string \<rightharpoonup> avatar_def"
  | JoinGameFail string
  | PlayerJoined player avatar_def
  | PlayersMoved "(string \<times> player_delta) list"
  | PlayerLeft string
  | Unhandled string

text \<open>The object spread \<^verbatim>\<open>{ ...old, ...delta }\<close>: a field of the delta wins.\<close>

definition spread :: "player \<Rightarrow> player_delta \<Rightarrow> player" where
  "spread old d =
     \<lparr>playerId = (case d_playerId d of None \<Rightarrow> playerId old | Some v \<Rightarrow> v),
      username = (case d_username d of None \<Rightarrow> username old | Some v \<Rightarrow> v),
      player_x = (case d_x d of None \<Rightarrow> player_x old | Some v \<Rightarrow> v),
      player_y = (case d_y d of None \<Rightarrow> player_y old | Some v \<Rightarrow> v),
      player_facing = (case d_facing d of None \<Rightarrow> player_facing old | Some v \<Rightarrow> v),
      animationFrame = (case d_animationFrame d of None \<Rightarrow> animationFrame old | Some v \<Rightarrow> v),
      avatar = (case d_avatar d of None \<Rightarrow> avatar old | Some v \<Rightarrow> v)\<rparr>"

text \<open>
  The body of the \<^verbatim>\<open>forEach\<close> over \<^verbatim>\<open>Object.keys(message.players)\<close>; the pair
  is a key and \<^verbatim>\<open>message.players[key]\<close>. The test \<^verbatim>\<open>if (this.players[playerId])\<close>
  is written as a lookup among the entries of the map, that is, among the own properties
  of \<^verbatim>\<open>this.players\<close>. In the source the lookup also reaches what a plain object
  inherits from \<^verbatim>\<open>Object.prototype\<close>: for a key such as \<^verbatim>\<open>constructor\<close> that has no
  entry, the test finds the inherited function, succeeds, and the branch stores the
  spread of that function and the delta, an object with the fields of the delta alone,
  under the key. Such an object is not a \<^typ>\<open>player\<close>; keys that name a member of
  \<^verbatim>\<open>Object.prototype\<close> are outside \<open>movePlayer\<close>, and outside the lookup
  \<^verbatim>\<open>this.players[this.playerId]\<close> of the acknowledged join below.
\<close>

definition movePlayer :: "string \<times> player_delta \<Rightarrow> game \<Rightarrow> game" where
  "movePlayer kd g =
     (case kd of (pid, d) \<Rightarrow>
        (case players g pid of
           None \<Rightarrow> g
         | Some old \<Rightarrow>
             (let g1 = g\<lparr>players := (players g)(pid \<mapsto> spread old d)\<rparr>
              in if Some pid = game_playerId g1
                 then updateCamera (g1\<lparr>myPlayer := players g1 pid\<rparr>)
                 else g1)))"

definition handleServerMessage :: "message \<Rightarrow> game \<Rightarrow> game" where
  "handleServerMessage m g =
     (case m of
        JoinGameOk pid ps avs \<Rightarrow>
          (let g1 = g\<lparr>game_playerId := Some pid\<rparr>;
               g2 = g1\<lparr>players := ps\<rparr>;
               g3 = g2\<lparr>myPlayer := players g2 pid\<rparr>;
               g4 = g3\<lparr>avatars := avs\<rparr>
           in updateCamera g4)
      | JoinGameFail err \<Rightarrow> g
      | PlayerJoined pl av \<Rightarrow>
          (let g1 = g\<lparr>players := (players g)(playerId pl \<mapsto> pl)\<rparr>
           in g1\<lparr>avatars := (avatars g1)(avatar_name av \<mapsto> av)\<rparr>)
      | PlayersMoved batch \<Rightarrow> fold movePlayer batch g
      | PlayerLeft pid \<Rightarrow> g\<lparr>players := (players g)(pid := None)\<rparr>
      | Unhandled act \<Rightarrow> g)"

subsection \<open>The session\<close>

text \<open>
  The constructor followed by \<^verbatim>\<open>init\<close>: the canvas takes the size of the window,
  then items and snakes are spawned.
\<close>

definition new_GameClient ::
  "real \<Rightarrow> real \<Rightarrow> (nat \<Rightarrow> real \<times> real \<times> real) \<Rightarrow> (nat \<Rightarrow> real \<times> real) \<Rightarrow> game" where
  "new_GameClient innerWidth innerHeight rndItems rndSnakes =
     spawnSnakes rndSnakes (spawnItems rndItems
       \<lparr>worldWidth = 2048, worldHeight = 2048,
        canvas_width = innerWidth, canvas_height = innerHeight,
        game_playerId = None, myPlayer = None,
        players = Map.empty, avatars = Map.empty,
        cameraX = 0, cameraY = 0,
        playerHealth = 100,
        items = [],
        inventory = \<lparr>bananas = 0, apples = 0, blueberries = 0\<rparr>,
        itemSize = 20,
        snakes = [], snakeWidth = 15, snakeHeight = 35,
        lastSnakeDamage = 0,
        floatingTexts = []\<rparr>)"

text \<open>
  One frame of \<^verbatim>\<open>render\<close>: the three simulation steps in the order of the source,
  between the drawing calls. \<open>now\<close> is what \<^verbatim>\<open>Date.now()\<close> returns in this frame.
\<close>

definition render :: "int \<Rightarrow> game \<Rightarrow> game" where
  "render now g = updateFloatingTexts (checkSnakeCollisions now (checkItemCollisions g))"

definition resize :: "real \<Rightarrow> real \<Rightarrow> game \<Rightarrow> game" where
  "resize w h g = updateCamera (g\<lparr>canvas_width := w, canvas_height := h\<rparr>)"

text \<open>
  Everything that writes a modelled field after construction: a frame, a message of the
  server, a resize of the window.
\<close>

datatype event = Frame int | Message message | Resize real real

fun step :: "event \<Rightarrow> game \<Rightarrow> game" where
  "step (Frame now) g = render now g"
| "step (Message m) g = handleServerMessage m g"
| "step (Resize w h) g = resize w h g"

inductive reachable :: "game \<Rightarrow> bool" where
  reach_start: "reachable (new_GameClient w h rndItems rndSnakes)"
| reach_step: "reachable g \<Longrightarrow> reachable (step e g)"

subsection \<open>Notions used in the statements\<close>

text \<open>
  The pickup test of \<^verbatim>\<open>checkItemCollisions\<close> as one predicate: the item is not
  collected and the distance computed by the source is below
  \<^verbatim>\<open>totalRadius - overlapThreshold\<close>.
\<close>

definition pickup_radius :: "game \<Rightarrow> real" where
  "pickup_radius g =
     fl (fl (15 + fl (itemSize g / 2)) - fl (fl (itemSize g / 2) * double_0_1))"

definition picked :: "player \<Rightarrow> game \<Rightarrow> item \<Rightarrow> bool" where
  "picked p g it \<longleftrightarrow> \<not> collected it \<and> item_distance p it g < pickup_radius g"

text \<open>The contact test of \<^verbatim>\<open>checkSnakeCollisions\<close> for one snake.\<close>

definition snake_touches :: "player \<Rightarrow> game \<Rightarrow> snake \<Rightarrow> bool" where
  "snake_touches p g sn \<longleftrightarrow>
     snake_distance p sn g < fl (15 + fl (max (snakeWidth g) (snakeHeight g) / 2))"

text \<open>
  The two changes of the health, \<^verbatim>\<open>Math.min(100, h + 5)\<close> and
  \<^verbatim>\<open>Math.max(0, h - 5)\<close>, and the range they are meant to keep.
\<close>

definition heal :: "int \<Rightarrow> int" where
  "heal h = min 100 (h + 5)"

definition bite :: "int \<Rightarrow> int" where
  "bite h = max 0 (h - 5)"

definition in_range :: "int \<Rightarrow> bool" where
  "in_range h \<longleftrightarrow> 0 \<le> h \<and> h \<le> 100"

text \<open>The texts pushed by \<^verbatim>\<open>collectItem\<close> and by \<^verbatim>\<open>takeSnakeDamage\<close>.\<close>

definition heal_text :: "player \<Rightarrow> floatingText" where
  "heal_text p = \<lparr>text_x = player_x p, text_y = player_y p - 30, text_text = ''+5'',
     text_color = ''#00FF00'', life = 60, maxLife = 60, velocityY = - 2\<rparr>"

definition damage_text :: "player \<Rightarrow> floatingText" where
  "damage_text p = \<lparr>text_x = player_x p, text_y = player_y p - 30, text_text = ''-5'',
     text_color = ''#FF0000'', life = 60, maxLife = 60, velocityY = - 2\<rparr>"

text \<open>Reading one counter of the inventory, and counting the collected items of a type.\<close>

definition counter :: "itemType \<Rightarrow> inventory_counts \<Rightarrow> int" where
  "counter ty c = (case ty of banana \<Rightarrow> bananas c | apple \<Rightarrow> apples c | blueberry \<Rightarrow> blueberries c)"

definition count_collected :: "itemType \<Rightarrow> item list \<Rightarrow> int" where
  "count_collected ty its = int (length (filter (\<lambda>it. collected it \<and> item_type it = ty) its))"

subsection \<open>Concrete sessions\<close>

text \<open>
  A player at \<open>(100, 100)\<close> and the acknowledgment that makes it the local player.
\<close>

definition scenario_player :: player where
  "scenario_player =
     \<lparr>playerId = ''me'', username = ''Tim'', player_x = 100, player_y = 100,
      player_facing = south, animationFrame = 0, avatar = ''a''\<rparr>"

definition scenario_join :: message where
  "scenario_join = JoinGameOk ''me'' [''me'' \<mapsto> scenario_player] Map.empty"

text \<open>
  Draws of \<^verbatim>\<open>Math.random\<close>: item 0 lands at \<open>(105, 105)\<close>, every other item at
  \<open>(1014, 1014)\<close>; snake 0 lands at \<open>(92.5, 82.5)\<close>, its centre at the player,
  snake 1 at \<open>(100, 90)\<close>, every other snake at \<open>(1016.5, 1006.5)\<close>.
\<close>

definition item_draws :: "nat \<Rightarrow> real \<times> real \<times> real" where
  "item_draws i = (if i = 0 then (0, 105 / 2028, 105 / 2028) else (0, 1 / 2, 1 / 2))"

definition far_item_draws :: "nat \<Rightarrow> real \<times> real \<times> real" where
  "far_item_draws i = (0, 1 / 2, 1 / 2)"

definition far_snake_draws :: "nat \<Rightarrow> real \<times> real" where
  "far_snake_draws i = (1 / 2, 1 / 2)"

definition near_snake_draws :: "nat \<Rightarrow> real \<times> real" where
  "near_snake_draws i =
     (if i = 0 then (185 / 4066, 55 / 1342)
      else if i = 1 then (100 / 2033, 30 / 671)
      else (1 / 2, 1 / 2))"

definition item_game :: game where
  "item_game = handleServerMessage scenario_join (new_GameClient 800 600 item_draws far_snake_draws)"

definition snake_game :: game where
  "snake_game = handleServerMessage scenario_join (new_GameClient 800 600 far_item_draws near_snake_draws)"

definition scenario_item :: item where
  "scenario_item = \<lparr>item_id = 0, item_type = banana, item_x = 105, item_y = 105, collected = False\<rparr>"

definition far_item :: "nat \<Rightarrow> item" where
  "far_item i = \<lparr>item_id = i, item_type = banana, item_x = 1014, item_y = 1014, collected = False\<rparr>"

definition near_snake :: "nat \<Rightarrow> snake" where
  "near_snake i = \<lparr>snake_id = i, snake_x = (if i = 0 then 185 / 2 else 100),
     snake_y = (if i = 0 then 165 / 2 else 90)\<rparr>"

definition far_snake :: "nat \<Rightarrow> snake" where
  "far_snake i = \<lparr>snake_id = i, snake_x = 2033 / 2, snake_y = 2013 / 2\<rparr>"



text \<open>The session after its first frame: item 0 has been picked up.\<close>

definition picked_game :: game where
  "picked_game = step (Frame 5000) item_game"

text \<open>
  A batch of \<^verbatim>\<open>players_moved\<close> that names an unknown id and the local player, with
  a new x and a new facing.
\<close>

definition move_delta :: player_delta where
  "move_delta = \<lparr>d_playerId = None, d_username = None, d_x = Some 120, d_y = None,
     d_facing = Some east, d_animationFrame = None, d_avatar = None\<rparr>"

definition scenario_batch :: "(string \<times> player_delta) list" where
  "scenario_batch = [(''ghost'', move_delta), (''me'', move_delta)]"

text \<open>The session with the two near snakes after its first frame.\<close>

definition bitten_game :: game where
  "bitten_game = step (Frame 5000) snake_game"

text \<open>
  A pickup at the bound: item 0 lands at \<open>(0, 0)\<close>, so that its centre is at
  \<open>(10, 10)\<close>, and the player stands at \<open>(11, y)\<close> for the double \<open>y\<close> nearest to
  33.9791576165636. The exact distance to the centre is below 24 by about \<open>4e-16\<close>.
\<close>

definition edge_player :: player where
  "edge_player =
     \<lparr>playerId = ''me'', username = ''Tim'', player_x = 11,
      player_y = 2391070649692487 / 2 ^ 46,
      player_facing = south, animationFrame = 0, avatar = ''a''\<rparr>"

definition edge_item :: item where
  "edge_item = \<lparr>item_id = 0, item_type = banana, item_x = 0, item_y = 0, collected = False\<rparr>"

definition edge_item_draws :: "nat \<Rightarrow> real \<times> real \<times> real" where
  "edge_item_draws i = (if i = 0 then (0, 0, 0) else (0, 1 / 2, 1 / 2))"

definition edge_game :: game where
  "edge_game =
     handleServerMessage (JoinGameOk ''me'' [''me'' \<mapsto> edge_player] Map.empty)
       (new_GameClient 800 600 edge_item_draws far_snake_draws)"

text \<open>Events other than a successful acknowledgment of the join.\<close>

fun not_join :: "event \<Rightarrow> bool" where
  "not_join (Message (JoinGameOk pid ps avs)) = False"
| "not_join e = True"

text \<open>
  The relation between \<^verbatim>\<open>myPlayer\<close> and \<^verbatim>\<open>players[playerId]\<close>: when a local
  player is set, the entry under the local id is that player.
\<close>

definition alias_ok :: "game \<Rightarrow> bool" where
  "alias_ok g =
     (case myPlayer g of
        None \<Rightarrow> True
      | Some p \<Rightarrow> (case game_playerId g of None \<Rightarrow> False | Some pid \<Rightarrow> players g pid = Some p))"

definition scenario_avatar :: avatar_def where
  "scenario_avatar = \<lparr>avatar_name = ''a'', frames_north = [], frames_south = [], frames_east = []\<rparr>"

section \<open>Lemmas\<close>

subsection \<open>Rounding to doubles\<close>

lemma rne_near: "\<bar>y - of_int n\<bar> < 1 / 2 \<Longrightarrow> rne y = n"
proof -
  assume a: "\<bar>y - of_int n\<bar> < 1 / 2"
  show ?thesis
  proof (cases "of_int n \<le> y")
    case True
    then have f: "\<lfloor>y\<rfloor> = n" using a by (intro floor_unique) auto
    then show ?thesis using a True by (simp add: rne_def Let_def)
  next
    case False
    then have f: "\<lfloor>y\<rfloor> = n - 1" using a by (intro floor_unique) auto
    then show ?thesis using a False by (auto simp add: rne_def Let_def)
  qed
qed

lemma rne_of_int: "rne (of_int m) = m"
  by (rule rne_near) simp

lemma rne_error: "\<bar>of_int (rne y) - y\<bar> \<le> 1 / 2"
proof -
  have "of_int \<lfloor>y\<rfloor> \<le> y" "y < of_int \<lfloor>y\<rfloor> + 1" by linarith+
  then show ?thesis by (auto simp add: rne_def Let_def)
qed

lemma fl_0: "fl 0 = 0"
  by (simp add: fl_def)

lemma fl_binade:
  fixes k :: int
  assumes "2 powr of_int k \<le> \<bar>x\<bar>" "\<bar>x\<bar> < 2 powr of_int (k + 1)"
  shows "fl x = 2 powr of_int (k - 52) * of_int (rne (x / 2 powr of_int (k - 52)))"
proof -
  have pos: "0 < \<bar>x\<bar>" using assms(1) by (smt (verit) powr_gt_zero)
  have "\<lfloor>log 2 \<bar>x\<bar>\<rfloor> = k"
    using assms pos by (subst floor_log_eq_powr_iff) auto
  then show ?thesis using pos by (simp add: fl_def Let_def)
qed

lemma fl_round_to:
  fixes k :: int
  assumes "2 powr of_int k \<le> \<bar>x\<bar>" "\<bar>x\<bar> < 2 powr of_int (k + 1)"
    and "\<bar>x / 2 powr of_int (k - 52) - of_int n\<bar> < 1 / 2"
  shows "fl x = 2 powr of_int (k - 52) * of_int n"
  using fl_binade[OF assms(1,2)] rne_near[OF assms(3)] by simp

lemma fl_error: "\<bar>fl x - x\<bar> \<le> \<bar>x\<bar> / 2 ^ 53"
proof (cases "x = 0")
  case True
  then show ?thesis by (simp add: fl_def)
next
  case False
  define k where "k = \<lfloor>log 2 \<bar>x\<bar>\<rfloor>"
  define u :: real where "u = 2 powr of_int (k - 52)"
  have pos: "0 < \<bar>x\<bar>" using False by simp
  have kb: "2 powr of_int k \<le> \<bar>x\<bar>" "\<bar>x\<bar> < 2 powr of_int (k + 1)"
    using floor_log_eq_powr_iff[of "\<bar>x\<bar>" 2 k] pos by (simp_all add: k_def)
  have u0: "0 < u" by (simp add: u_def)
  have f: "fl x = u * of_int (rne (x / u))"
    using False by (simp add: fl_def Let_def k_def u_def)
  have "fl x - x = u * (of_int (rne (x / u)) - x / u)"
    unfolding f using u0 by (simp add: right_diff_distrib)
  then have "\<bar>fl x - x\<bar> = \<bar>u\<bar> * \<bar>of_int (rne (x / u)) - x / u\<bar>"
    by (simp only: abs_mult)
  also have "\<bar>u\<bar> = u" using u0 by simp
  finally have "\<bar>fl x - x\<bar> = u * \<bar>of_int (rne (x / u)) - x / u\<bar>" .
  also have "\<dots> \<le> u * (1 / 2)"
    using rne_error[of "x / u"] u0 by (intro mult_left_mono) auto
  also have "u * (1 / 2) = 2 powr of_int k / 2 ^ 53"
    by (simp add: u_def powr_diff powr_realpow[symmetric])
  also have "\<dots> \<le> \<bar>x\<bar> / 2 ^ 53"
    using kb(1) by (simp add: divide_right_mono)
  finally show ?thesis .
qed

lemma fl_dyadic:
  fixes m :: int
  assumes "\<bar>m\<bar> < 2 ^ 53"
  shows "fl (of_int m / 2 ^ j) = of_int m / 2 ^ j"
proof (cases "m = 0")
  case True
  then show ?thesis by (simp add: fl_def)
next
  case False
  define x :: real where "x = of_int m / 2 ^ j"
  define k where "k = \<lfloor>log 2 \<bar>x\<bar>\<rfloor>"
  have x0: "x \<noteq> 0" using False by (simp add: x_def)
  have pos: "0 < \<bar>x\<bar>" using x0 by simp
  have kb: "2 powr of_int k \<le> \<bar>x\<bar>" "\<bar>x\<bar> < 2 powr of_int (k + 1)"
    using floor_log_eq_powr_iff[of "\<bar>x\<bar>" 2 k] pos by (simp_all add: k_def)
  have "\<bar>x\<bar> < 2 ^ 53 / 2 ^ j"
  proof -
    have "\<bar>real_of_int m\<bar> < 2 ^ 53" using assms by (metis of_int_abs of_int_less_numeral_power_cancel_iff)
    then show ?thesis by (simp add: x_def divide_strict_right_mono)
  qed
  also have "(2::real) ^ 53 / 2 ^ j = 2 powr (53 - real j)"
    by (simp add: powr_diff powr_realpow[symmetric])
  finally have "2 powr of_int k < 2 powr (53 - real j)" using kb(1) by linarith
  then have "of_int k < 53 - real j" by simp
  then have kj: "k + int j \<le> 52" by linarith
  define d where "d = nat (52 - k - int j)"
  have dd: "int d = 52 - k - int j" using kj by (simp add: d_def)
  have a: "1 / (2::real) ^ j = 2 powr (- real j)"
    by (simp add: powr_minus powr_realpow inverse_eq_divide)
  have b: "1 / (2::real) powr of_int (k - 52) = 2 powr of_int (52 - k)"
    using powr_minus[of "2::real" "of_int (k - 52)"] by (simp add: inverse_eq_divide)
  have "x / 2 powr of_int (k - 52) = of_int m * ((1 / 2 ^ j) * (1 / 2 powr of_int (k - 52)))"
    by (simp add: x_def)
  also have "\<dots> = of_int m * 2 powr (of_int (52 - k) - real j)"
    unfolding a b by (simp add: powr_add[symmetric])
  finally have "x / 2 powr of_int (k - 52) = of_int m * 2 powr (of_int (52 - k) - real j)" .
  also have "of_int (52 - k) - real j = real d" using dd by linarith
  also have "of_int m * 2 powr real d = of_int (m * 2 ^ d)"
    by (simp add: powr_realpow)
  finally have q: "x / 2 powr of_int (k - 52) = of_int (m * 2 ^ d)" .
  have "fl x = 2 powr of_int (k - 52) * of_int (rne (x / 2 powr of_int (k - 52)))"
    by (rule fl_binade[OF kb])
  also have "\<dots> = 2 powr of_int (k - 52) * (x / 2 powr of_int (k - 52))"
    by (simp only: q rne_of_int)
  also have "\<dots> = x" by simp
  finally show ?thesis by (simp add: x_def)
qed

subsection \<open>What the handlers leave alone\<close>

lemma updateCamera_keeps:
  "playerHealth (updateCamera g) = playerHealth g"
  "items (updateCamera g) = items g"
  "inventory (updateCamera g) = inventory g"
  "floatingTexts (updateCamera g) = floatingTexts g"
  "lastSnakeDamage (updateCamera g) = lastSnakeDamage g"
  "snakes (updateCamera g) = snakes g"
  "myPlayer (updateCamera g) = myPlayer g"
  "players (updateCamera g) = players g"
  "game_playerId (updateCamera g) = game_playerId g"
  "itemSize (updateCamera g) = itemSize g"
  by (simp_all add: updateCamera_def Let_def split: option.splits)

lemma movePlayer_keeps:
  "playerHealth (movePlayer kd g) = playerHealth g"
  "items (movePlayer kd g) = items g"
  "inventory (movePlayer kd g) = inventory g"
  "floatingTexts (movePlayer kd g) = floatingTexts g"
  "lastSnakeDamage (movePlayer kd g) = lastSnakeDamage g"
  "snakes (movePlayer kd g) = snakes g"
  "game_playerId (movePlayer kd g) = game_playerId g"
  "itemSize (movePlayer kd g) = itemSize g"
  by (simp_all add: movePlayer_def Let_def updateCamera_keeps split: option.splits prod.splits)

lemma fold_movePlayer_keeps:
  "playerHealth (fold movePlayer b g) = playerHealth g"
  "items (fold movePlayer b g) = items g"
  "inventory (fold movePlayer b g) = inventory g"
  "floatingTexts (fold movePlayer b g) = floatingTexts g"
  "lastSnakeDamage (fold movePlayer b g) = lastSnakeDamage g"
  "snakes (fold movePlayer b g) = snakes g"
  "game_playerId (fold movePlayer b g) = game_playerId g"
  "itemSize (fold movePlayer b g) = itemSize g"
  by (induction b arbitrary: g; simp add: movePlayer_keeps)+

lemma handleServerMessage_keeps:
  "playerHealth (handleServerMessage m g) = playerHealth g"
  "items (handleServerMessage m g) = items g"
  "inventory (handleServerMessage m g) = inventory g"
  "floatingTexts (handleServerMessage m g) = floatingTexts g"
  "lastSnakeDamage (handleServerMessage m g) = lastSnakeDamage g"
  "snakes (handleServerMessage m g) = snakes g"
  "itemSize (handleServerMessage m g) = itemSize g"
  by (cases m; simp add: handleServerMessage_def Let_def updateCamera_keeps fold_movePlayer_keeps)+

lemma resize_keeps:
  "playerHealth (resize w h g) = playerHealth g"
  "items (resize w h g) = items g"
  "inventory (resize w h g) = inventory g"
  "floatingTexts (resize w h g) = floatingTexts g"
  "lastSnakeDamage (resize w h g) = lastSnakeDamage g"
  "snakes (resize w h g) = snakes g"
  "itemSize (resize w h g) = itemSize g"
  by (simp_all add: resize_def updateCamera_keeps)

subsection \<open>The loop over the items\<close>

lemma checkItem_eq:
  "checkItem p it g =
     (if \<not> collected it \<and> item_distance p it g < pickup_radius g then collectItem p it g else (it, g))"
  by (simp add: checkItem_def Let_def pickup_radius_def)

lemma collectItem_fst: "fst (collectItem p it g) = it\<lparr>collected := True\<rparr>"
  by (simp add: collectItem_def Let_def)

lemma collectItem_snd:
  "inventory (snd (collectItem p it g)) = inc_inventory (item_type it) (inventory g)"
  "playerHealth (snd (collectItem p it g)) = min 100 (playerHealth g + 5)"
  "itemSize (snd (collectItem p it g)) = itemSize g"
  "myPlayer (snd (collectItem p it g)) = myPlayer g"
  "snakes (snd (collectItem p it g)) = snakes g"
  "lastSnakeDamage (snd (collectItem p it g)) = lastSnakeDamage g"
  "items (snd (collectItem p it g)) = items g"
  by (simp_all add: collectItem_def Let_def addFloatingText_def)

lemma collectItem_texts:
  "floatingTexts (snd (collectItem p it g)) = floatingTexts g @
     [\<lparr>text_x = player_x p, text_y = player_y p - 30, text_text = ''+5'', text_color = ''#00FF00'',
       life = 60, maxLife = 60, velocityY = - 2\<rparr>]"
  by (simp add: collectItem_def Let_def addFloatingText_def)

lemma checkItem_keeps:
  "itemSize (snd (checkItem p it g)) = itemSize g"
  "myPlayer (snd (checkItem p it g)) = myPlayer g"
  "snakes (snd (checkItem p it g)) = snakes g"
  "lastSnakeDamage (snd (checkItem p it g)) = lastSnakeDamage g"
  by (simp_all add: checkItem_eq collectItem_snd)

lemma checkItem_fst_cong:
  "itemSize g' = itemSize g \<Longrightarrow> fst (checkItem p it g') = fst (checkItem p it g)"
  by (simp add: checkItem_eq collectItem_fst pickup_radius_def item_distance_def)

lemma forEach_item_Cons:
  "forEach_item p (it # its) g =
     (fst (checkItem p it g) # fst (forEach_item p its (snd (checkItem p it g))),
      snd (forEach_item p its (snd (checkItem p it g))))"
  by (simp split: prod.splits)

lemma forEach_item_itemSize: "itemSize (snd (forEach_item p its g)) = itemSize g"
  by (induction its arbitrary: g) (simp_all only: forEach_item.simps(1) forEach_item_Cons snd_conv checkItem_keeps)

lemma forEach_item_myPlayer: "myPlayer (snd (forEach_item p its g)) = myPlayer g"
  by (induction its arbitrary: g) (simp_all only: forEach_item.simps(1) forEach_item_Cons snd_conv checkItem_keeps)

lemma forEach_item_snakes: "snakes (snd (forEach_item p its g)) = snakes g"
  by (induction its arbitrary: g) (simp_all only: forEach_item.simps(1) forEach_item_Cons snd_conv checkItem_keeps)

lemma forEach_item_lastSnakeDamage: "lastSnakeDamage (snd (forEach_item p its g)) = lastSnakeDamage g"
  by (induction its arbitrary: g) (simp_all only: forEach_item.simps(1) forEach_item_Cons snd_conv checkItem_keeps)

lemma forEach_item_fst:
  "fst (forEach_item p its g) = map (\<lambda>it. fst (checkItem p it g)) its"
proof (induction its arbitrary: g)
  case Nil
  show ?case by simp
next
  case (Cons it its)
  have "fst (forEach_item p its (snd (checkItem p it g))) =
        map (\<lambda>it'. fst (checkItem p it' (snd (checkItem p it g)))) its"
    by (rule Cons.IH)
  also have "\<dots> = map (\<lambda>it'. fst (checkItem p it' g)) its"
    by (rule map_cong[OF refl]) (rule checkItem_fst_cong, rule checkItem_keeps(1))
  finally show ?case by (simp only: forEach_item_Cons fst_conv list.map)
qed

lemma counter_inc_inventory:
  "counter ty' (inc_inventory ty c) = counter ty' c + (if ty = ty' then 1 else 0)"
  by (cases ty; cases ty'; simp add: counter_def inc_inventory_def)

lemma count_collected_Cons:
  "count_collected ty (it # its) = (if collected it \<and> item_type it = ty then 1 else 0) + count_collected ty its"
  by (simp add: count_collected_def)

lemma checkItem_counter:
  "counter ty (inventory (snd (checkItem p it g))) + (if collected it \<and> item_type it = ty then 1 else 0) =
   counter ty (inventory g) +
     (if collected (fst (checkItem p it g)) \<and> item_type (fst (checkItem p it g)) = ty then 1 else 0)"
  by (simp add: checkItem_eq collectItem_fst collectItem_snd counter_inc_inventory)

lemma forEach_item_counter:
  "counter ty (inventory (snd (forEach_item p its g))) + count_collected ty its =
   counter ty (inventory g) + count_collected ty (fst (forEach_item p its g))"
proof (induction its arbitrary: g)
  case Nil
  show ?case by simp
next
  case (Cons it its)
  from Cons.IH[of "snd (checkItem p it g)"] checkItem_counter[of ty p it g]
  show ?case
    by (simp only: forEach_item_Cons fst_conv snd_conv count_collected_Cons)
qed

lemma checkItemCollisions_items:
  "items (checkItemCollisions g) =
     (case myPlayer g of None \<Rightarrow> items g | Some p \<Rightarrow> fst (forEach_item p (items g) g))"
  by (simp add: checkItemCollisions_def split: option.splits prod.splits)

lemma checkItemCollisions_inventory:
  "inventory (checkItemCollisions g) =
     (case myPlayer g of None \<Rightarrow> inventory g | Some p \<Rightarrow> inventory (snd (forEach_item p (items g) g)))"
  by (simp add: checkItemCollisions_def split: option.splits prod.splits)

lemma checkItemCollisions_counter:
  "counter ty (inventory (checkItemCollisions g)) + count_collected ty (items g) =
   counter ty (inventory g) + count_collected ty (items (checkItemCollisions g))"
  by (cases "myPlayer g") (simp_all add: checkItemCollisions_items checkItemCollisions_inventory forEach_item_counter)

subsection \<open>The loop over the snakes\<close>

lemma takeSnakeDamage_fields:
  "playerHealth (takeSnakeDamage p g) = bite (playerHealth g)"
  "floatingTexts (takeSnakeDamage p g) = floatingTexts g @ [damage_text p]"
  "inventory (takeSnakeDamage p g) = inventory g"
  "items (takeSnakeDamage p g) = items g"
  "snakeWidth (takeSnakeDamage p g) = snakeWidth g"
  "snakeHeight (takeSnakeDamage p g) = snakeHeight g"
  "myPlayer (takeSnakeDamage p g) = myPlayer g"
  "lastSnakeDamage (takeSnakeDamage p g) = lastSnakeDamage g"
  by (simp_all add: takeSnakeDamage_def addFloatingText_def damage_text_def bite_def)

lemma checkSnake_eq:
  "checkSnake p t sn g =
     (if snake_touches p g sn then (takeSnakeDamage p g)\<lparr>lastSnakeDamage := t\<rparr> else g)"
  by (simp add: checkSnake_def Let_def snake_touches_def)

lemma checkSnake_fields:
  "playerHealth (checkSnake p t sn g) =
     (if snake_touches p g sn then bite (playerHealth g) else playerHealth g)"
  "floatingTexts (checkSnake p t sn g) =
     (if snake_touches p g sn then floatingTexts g @ [damage_text p] else floatingTexts g)"
  "lastSnakeDamage (checkSnake p t sn g) =
     (if snake_touches p g sn then t else lastSnakeDamage g)"
  "inventory (checkSnake p t sn g) = inventory g"
  "items (checkSnake p t sn g) = items g"
  "snakeWidth (checkSnake p t sn g) = snakeWidth g"
  "snakeHeight (checkSnake p t sn g) = snakeHeight g"
  "myPlayer (checkSnake p t sn g) = myPlayer g"
  by (simp_all add: checkSnake_eq takeSnakeDamage_fields)

lemma snake_touches_cong:
  "snakeWidth g' = snakeWidth g \<Longrightarrow> snakeHeight g' = snakeHeight g \<Longrightarrow>
   snake_touches p g' sn = snake_touches p g sn"
  by (simp add: snake_touches_def snake_distance_def)

lemma snake_touches_checkSnake:
  "snake_touches p (checkSnake p t sn' g) sn = snake_touches p g sn"
  by (rule snake_touches_cong) (simp_all only: checkSnake_fields)

lemma fold_checkSnake_keeps:
  "inventory (fold (checkSnake p t) sns g) = inventory g"
  "items (fold (checkSnake p t) sns g) = items g"
  "snakeWidth (fold (checkSnake p t) sns g) = snakeWidth g"
  "snakeHeight (fold (checkSnake p t) sns g) = snakeHeight g"
  "myPlayer (fold (checkSnake p t) sns g) = myPlayer g"
  by (induction sns arbitrary: g; simp add: checkSnake_fields)+

lemma fold_checkSnake_health:
  "playerHealth (fold (checkSnake p t) sns g) =
     (bite ^^ length (filter (snake_touches p g) sns)) (playerHealth g)"
proof (induction sns arbitrary: g)
  case Nil
  show ?case by simp
next
  case (Cons sn sns)
  have c: "snake_touches p (checkSnake p t sn g) = snake_touches p g"
    by (rule ext) (rule snake_touches_checkSnake)
  show ?case
    by (simp add: Cons.IH c checkSnake_fields funpow_swap1)
qed

lemma fold_checkSnake_texts:
  "floatingTexts (fold (checkSnake p t) sns g) =
     floatingTexts g @ replicate (length (filter (snake_touches p g) sns)) (damage_text p)"
proof (induction sns arbitrary: g)
  case Nil
  show ?case by simp
next
  case (Cons sn sns)
  have c: "snake_touches p (checkSnake p t sn g) = snake_touches p g"
    by (rule ext) (rule snake_touches_checkSnake)
  show ?case
    by (simp add: Cons.IH c checkSnake_fields)
qed

lemma fold_checkSnake_last:
  "lastSnakeDamage (fold (checkSnake p t) sns g) =
     (if filter (snake_touches p g) sns = [] then lastSnakeDamage g else t)"
proof (induction sns arbitrary: g)
  case Nil
  show ?case by simp
next
  case (Cons sn sns)
  have c: "snake_touches p (checkSnake p t sn g) = snake_touches p g"
    by (rule ext) (rule snake_touches_checkSnake)
  show ?case
    by (simp add: Cons.IH c checkSnake_fields)
qed

subsection \<open>Health and texts of the item loop\<close>

lemma picked_cong: "itemSize g' = itemSize g \<Longrightarrow> picked p g' it = picked p g it"
  by (simp add: picked_def item_distance_def pickup_radius_def)

lemma checkItem_picked:
  "checkItem p it g = (if picked p g it then collectItem p it g else (it, g))"
  by (simp add: checkItem_eq picked_def)

lemma checkItem_health:
  "playerHealth (snd (checkItem p it g)) = (if picked p g it then heal (playerHealth g) else playerHealth g)"
  by (simp add: checkItem_picked collectItem_snd heal_def)

lemma checkItem_texts:
  "floatingTexts (snd (checkItem p it g)) =
     (if picked p g it then floatingTexts g @ [heal_text p] else floatingTexts g)"
  by (simp add: checkItem_picked collectItem_texts heal_text_def)

lemma picked_checkItem: "picked p (snd (checkItem p it' g)) it = picked p g it"
  by (rule picked_cong) (rule checkItem_keeps(1))

lemma forEach_item_health:
  "playerHealth (snd (forEach_item p its g)) =
     (heal ^^ length (filter (picked p g) its)) (playerHealth g)"
proof (induction its arbitrary: g)
  case Nil
  show ?case by simp
next
  case (Cons it its)
  have c: "picked p (snd (checkItem p it g)) = picked p g"
    by (rule ext) (rule picked_checkItem)
  show ?case
    by (simp only: forEach_item_Cons snd_conv Cons.IH c checkItem_health)
       (simp add: funpow_swap1)
qed

lemma forEach_item_texts:
  "floatingTexts (snd (forEach_item p its g)) =
     floatingTexts g @ replicate (length (filter (picked p g) its)) (heal_text p)"
proof (induction its arbitrary: g)
  case Nil
  show ?case by simp
next
  case (Cons it its)
  have c: "picked p (snd (checkItem p it g)) = picked p g"
    by (rule ext) (rule picked_checkItem)
  show ?case
    by (simp only: forEach_item_Cons snd_conv Cons.IH c checkItem_texts) simp
qed

subsection \<open>Aging of the texts\<close>

lemma age_text_fields:
  "life (age_text t) = life t - 1"
  "text_y (age_text t) = text_y t + velocityY t"
  "text_x (age_text t) = text_x t"
  "text_text (age_text t) = text_text t"
  "text_color (age_text t) = text_color t"
  "maxLife (age_text t) = maxLife t"
  "velocityY (age_text t) = velocityY t"
  by (simp_all add: age_text_def Let_def)




subsection \<open>The health range\<close>

lemma heal_in_range: "in_range h \<Longrightarrow> in_range (heal h)"
  by (simp add: in_range_def heal_def)

lemma bite_in_range: "in_range h \<Longrightarrow> in_range (bite h)"
  by (simp add: in_range_def bite_def)

lemma funpow_heal_in_range: "in_range h \<Longrightarrow> in_range ((heal ^^ n) h)"
  by (induction n) (simp_all add: heal_in_range)

lemma funpow_bite_in_range: "in_range h \<Longrightarrow> in_range ((bite ^^ n) h)"
  by (induction n) (simp_all add: bite_in_range)

lemma checkItemCollisions_health:
  "playerHealth (checkItemCollisions g) =
     (case myPlayer g of None \<Rightarrow> playerHealth g
      | Some p \<Rightarrow> (heal ^^ length (filter (picked p g) (items g))) (playerHealth g))"
  by (simp add: checkItemCollisions_def forEach_item_health[symmetric] split: option.splits prod.splits)

lemma checkItemCollisions_texts:
  "floatingTexts (checkItemCollisions g) =
     (case myPlayer g of None \<Rightarrow> floatingTexts g
      | Some p \<Rightarrow> floatingTexts g @ replicate (length (filter (picked p g) (items g))) (heal_text p))"
  by (simp add: checkItemCollisions_def forEach_item_texts[symmetric] split: option.splits prod.splits)

lemma checkItemCollisions_keeps:
  "myPlayer (checkItemCollisions g) = myPlayer g"
  "snakes (checkItemCollisions g) = snakes g"
  "lastSnakeDamage (checkItemCollisions g) = lastSnakeDamage g"
  "itemSize (checkItemCollisions g) = itemSize g"
proof -
  show "myPlayer (checkItemCollisions g) = myPlayer g"
    using forEach_item_myPlayer
    by (simp add: checkItemCollisions_def split: option.splits prod.splits) (metis snd_conv)
  show "snakes (checkItemCollisions g) = snakes g"
    using forEach_item_snakes
    by (simp add: checkItemCollisions_def split: option.splits prod.splits) (metis snd_conv)
  show "lastSnakeDamage (checkItemCollisions g) = lastSnakeDamage g"
    using forEach_item_lastSnakeDamage
    by (simp add: checkItemCollisions_def split: option.splits prod.splits) (metis snd_conv)
  show "itemSize (checkItemCollisions g) = itemSize g"
    using forEach_item_itemSize
    by (simp add: checkItemCollisions_def split: option.splits prod.splits) (metis snd_conv)
qed

lemma checkSnakeCollisions_health:
  "playerHealth (checkSnakeCollisions t g) =
     (case myPlayer g of None \<Rightarrow> playerHealth g
      | Some p \<Rightarrow> if t - lastSnakeDamage g < 1000 then playerHealth g
                  else (bite ^^ length (filter (snake_touches p g) (snakes g))) (playerHealth g))"
  by (simp add: checkSnakeCollisions_def fold_checkSnake_health split: option.splits)

lemma checkSnakeCollisions_texts:
  "floatingTexts (checkSnakeCollisions t g) =
     (case myPlayer g of None \<Rightarrow> floatingTexts g
      | Some p \<Rightarrow> if t - lastSnakeDamage g < 1000 then floatingTexts g
                  else floatingTexts g @
                    replicate (length (filter (snake_touches p g) (snakes g))) (damage_text p))"
  by (simp add: checkSnakeCollisions_def fold_checkSnake_texts split: option.splits)

lemma checkSnakeCollisions_keeps:
  "inventory (checkSnakeCollisions t g) = inventory g"
  "items (checkSnakeCollisions t g) = items g"
  "myPlayer (checkSnakeCollisions t g) = myPlayer g"
  by (simp_all add: checkSnakeCollisions_def fold_checkSnake_keeps split: option.splits)

lemma updateFloatingTexts_keeps:
  "inventory (updateFloatingTexts g) = inventory g"
  "items (updateFloatingTexts g) = items g"
  "playerHealth (updateFloatingTexts g) = playerHealth g"
  "myPlayer (updateFloatingTexts g) = myPlayer g"
  "lastSnakeDamage (updateFloatingTexts g) = lastSnakeDamage g"
  "floatingTexts (updateFloatingTexts g) = filter_aging (floatingTexts g)"
  by (simp_all add: updateFloatingTexts_def)

lemma render_fields:
  "inventory (render t g) = inventory (checkItemCollisions g)"
  "items (render t g) = items (checkItemCollisions g)"
  "playerHealth (render t g) = playerHealth (checkSnakeCollisions t (checkItemCollisions g))"
  "myPlayer (render t g) = myPlayer g"
  "floatingTexts (render t g) =
     filter_aging (floatingTexts (checkSnakeCollisions t (checkItemCollisions g)))"
  by (simp_all add: render_def updateFloatingTexts_keeps checkSnakeCollisions_keeps
        checkItemCollisions_keeps)

lemma checkItemCollisions_in_range:
  "in_range (playerHealth g) \<Longrightarrow> in_range (playerHealth (checkItemCollisions g))"
  by (simp add: checkItemCollisions_health funpow_heal_in_range split: option.splits)

lemma checkSnakeCollisions_in_range:
  "in_range (playerHealth g) \<Longrightarrow> in_range (playerHealth (checkSnakeCollisions t g))"
  by (simp add: checkSnakeCollisions_health funpow_bite_in_range split: option.splits)

lemma step_in_range: "in_range (playerHealth g) \<Longrightarrow> in_range (playerHealth (step e g))"
  by (cases e)
     (simp_all add: render_fields checkItemCollisions_in_range checkSnakeCollisions_in_range
        handleServerMessage_keeps resize_keeps)

lemma new_GameClient_fields:
  "playerHealth (new_GameClient w h ri rs) = 100"
  "inventory (new_GameClient w h ri rs) = \<lparr>bananas = 0, apples = 0, blueberries = 0\<rparr>"
  "floatingTexts (new_GameClient w h ri rs) = []"
  "myPlayer (new_GameClient w h ri rs) = None"
  "length (items (new_GameClient w h ri rs)) = 50"
  "length (snakes (new_GameClient w h ri rs)) = 15"
  "lastSnakeDamage (new_GameClient w h ri rs) = 0"
  by (simp_all add: new_GameClient_def spawnSnakes_def spawnItems_def)

lemma new_GameClient_uncollected:
  "it \<in> set (items (new_GameClient w h ri rs)) \<Longrightarrow> \<not> collected it"
  by (auto simp add: new_GameClient_def spawnSnakes_def spawnItems_def split: prod.splits)

lemma reachable_in_range: "reachable g \<Longrightarrow> in_range (playerHealth g)"
  by (induction rule: reachable.induct)
     (simp_all add: new_GameClient_fields step_in_range, simp add: in_range_def)

subsection \<open>The item list over a run of events\<close>

lemma checkItem_fst:
  "fst (checkItem p it g) = (if picked p g it then it\<lparr>collected := True\<rparr> else it)"
  by (simp add: checkItem_picked collectItem_fst)

lemma checkItemCollisions_items_map:
  "items (checkItemCollisions g) =
     (case myPlayer g of None \<Rightarrow> items g
      | Some p \<Rightarrow> map (\<lambda>it. if picked p g it then it\<lparr>collected := True\<rparr> else it) (items g))"
  by (simp add: checkItemCollisions_items forEach_item_fst checkItem_fst split: option.splits)

lemma step_items_length: "length (items (step e g)) = length (items g)"
  by (cases e)
     (simp_all add: render_fields checkItemCollisions_items_map handleServerMessage_keeps
        resize_keeps split: option.splits)

lemma step_items_nth:
  assumes "i < length (items g)"
  shows "items (step e g) ! i = items g ! i \<or> 
         (\<not> collected (items g ! i) \<and> items (step e g) ! i = (items g ! i)\<lparr>collected := True\<rparr>)"
  using assms
  by (cases e)
     (simp_all add: render_fields checkItemCollisions_items_map handleServerMessage_keeps
        resize_keeps picked_def split: option.splits)

lemma step_items_collected:
  assumes "i < length (items g)" "collected (items g ! i)"
  shows "items (step e g) ! i = items g ! i"
  using step_items_nth[OF assms(1), of e] assms(2) by blast

lemma run_items_length: "length (items (fold step es g)) = length (items g)"
  by (induction es arbitrary: g) (simp_all add: step_items_length)

lemma run_items_collected:
  "i < length (items g) \<Longrightarrow> collected (items g ! i) \<Longrightarrow> items (fold step es g) ! i = items g ! i"
proof (induction es arbitrary: g)
  case Nil
  show ?case by simp
next
  case (Cons e es)
  have a: "i < length (items (step e g))" using Cons.prems(1) by (simp add: step_items_length)
  have b: "items (step e g) ! i = items g ! i" using Cons.prems by (rule step_items_collected)
  have "items (fold step es (step e g)) ! i = items (step e g) ! i"
    using a b Cons.prems(2) by (intro Cons.IH) simp_all
  then show ?case using b by simp
qed

lemma run_items_nth:
  "i < length (items g) \<Longrightarrow>
     items (fold step es g) ! i = items g ! i \<or>
     items (fold step es g) ! i = (items g ! i)\<lparr>collected := True\<rparr>"
proof (induction es arbitrary: g)
  case Nil
  show ?case by simp
next
  case (Cons e es)
  have a: "i < length (items (step e g))" using Cons.prems(1) by (simp add: step_items_length)
  from step_items_nth[OF Cons.prems(1), of e]
  have b: "items (step e g) ! i = items g ! i \<or> items (step e g) ! i = (items g ! i)\<lparr>collected := True\<rparr>"
    by blast
  from Cons.IH[OF a]
  have c: "items (fold step es (step e g)) ! i = items (step e g) ! i \<or>
           items (fold step es (step e g)) ! i = (items (step e g) ! i)\<lparr>collected := True\<rparr>" .
  from b c show ?case by auto
qed

lemma forEach_item_inventory:
  "inventory (snd (forEach_item p its g)) =
     fold (\<lambda>it. inc_inventory (item_type it)) (filter (picked p g) its) (inventory g)"
proof (induction its arbitrary: g)
  case Nil
  show ?case by simp
next
  case (Cons it its)
  have c: "picked p (snd (checkItem p it g)) = picked p g"
    by (rule ext) (rule picked_checkItem)
  have d: "inventory (snd (checkItem p it g)) =
             (if picked p g it then inc_inventory (item_type it) (inventory g) else inventory g)"
    by (simp add: checkItem_picked collectItem_snd)
  show ?case
    by (simp only: forEach_item_Cons snd_conv Cons.IH c d) simp
qed

lemma filter_picked_uncollected:
  "filter (\<lambda>it. \<not> collected it \<and> picked p g it) its = filter (picked p g) its"
  by (rule filter_cong[OF refl]) (simp add: picked_def)

lemma picked_items_update: "picked p (g\<lparr>items := xs\<rparr>) = picked p g"
  by (rule ext) (simp add: picked_def item_distance_def pickup_radius_def)

lemma checkItemCollisions_ignores_collected:
  "inventory (checkItemCollisions (g\<lparr>items := filter (\<lambda>it. \<not> collected it) (items g)\<rparr>)) =
     inventory (checkItemCollisions g)"
  "playerHealth (checkItemCollisions (g\<lparr>items := filter (\<lambda>it. \<not> collected it) (items g)\<rparr>)) =
     playerHealth (checkItemCollisions g)"
  "floatingTexts (checkItemCollisions (g\<lparr>items := filter (\<lambda>it. \<not> collected it) (items g)\<rparr>)) =
     floatingTexts (checkItemCollisions g)"
  by (simp_all add: checkItemCollisions_inventory checkItemCollisions_health
        checkItemCollisions_texts forEach_item_inventory picked_items_update
        filter_picked_uncollected split: option.splits)

subsection \<open>Distances of the concrete sessions, in doubles\<close>

lemma fl_le: "0 \<le> x \<Longrightarrow> x \<le> b \<Longrightarrow> fl x \<le> b + b / 2 ^ 53"
proof -
  assume a: "0 \<le> x" "x \<le> b"
  have "fl x \<le> x + \<bar>x\<bar> / 2 ^ 53" using fl_error[of x] by linarith
  also have "\<dots> = x + x / 2 ^ 53" using a by simp
  also have "\<dots> \<le> b + b / 2 ^ 53" using a by (intro add_mono divide_right_mono) auto
  finally show ?thesis .
qed

lemma fl_ge: "0 \<le> a \<Longrightarrow> a \<le> x \<Longrightarrow> a - a / 2 ^ 53 \<le> fl x"
proof -
  assume a: "0 \<le> a" "a \<le> x"
  have "a - a / 2 ^ 53 = a * (1 - 1 / 2 ^ 53)" by (simp add: algebra_simps)
  also have "\<dots> \<le> x * (1 - 1 / 2 ^ 53)" using a by (intro mult_right_mono) auto
  also have "\<dots> = x - \<bar>x\<bar> / 2 ^ 53" using a by (simp add: algebra_simps)
  also have "\<dots> \<le> fl x" using fl_error[of x] by linarith
  finally show ?thesis .
qed

lemma fl_exact_values:
  "fl 10 = 10" "fl 24 = 24" "fl 25 = 25" "fl 105 = 105" "fl 115 = 115" "fl 225 = 225"
  "fl 450 = 450" "fl 50 = 50" "fl 1024 = 1024" "fl 853776 = 853776" "fl 1707552 = 1707552"
  "fl (- 5) = - 5" "fl (- 15) = - 15" "fl (- 924) = - 924" "fl 100 = 100" "fl 1 = 1"
  "fl 576 = 576" "fl 575 = 575"
  using fl_dyadic[of 10 0] fl_dyadic[of 24 0] fl_dyadic[of 25 0] fl_dyadic[of 105 0]
    fl_dyadic[of 115 0] fl_dyadic[of 225 0] fl_dyadic[of 450 0] fl_dyadic[of 50 0]
    fl_dyadic[of 1024 0] fl_dyadic[of 853776 0] fl_dyadic[of 1707552 0]
    fl_dyadic[of "- 5" 0] fl_dyadic[of "- 15" 0] fl_dyadic[of "- 924" 0] fl_dyadic[of 100 0]
    fl_dyadic[of 1 0] fl_dyadic[of 576 0] fl_dyadic[of 575 0]
  by simp_all

lemma fl_tenth_of_10: "fl (10 * double_0_1) = 1"
proof -
  have "fl (10 * double_0_1) = 2 powr of_int (0 - 52) * of_int (2 ^ 52)"
    by (rule fl_round_to) (simp_all add: double_0_1_def powr_neg_numeral)
  then show ?thesis by (simp add: powr_neg_numeral)
qed

lemma pickup_radius_20: "itemSize g = 20 \<Longrightarrow> pickup_radius g = 24"
  by (simp add: pickup_radius_def fl_exact_values fl_tenth_of_10)

lemma sqrt_450_bounds: "21 < sqrt 450" "sqrt 450 < 22"
proof -
  show "21 < sqrt 450" by (rule real_less_rsqrt) simp
  show "sqrt 450 < 22" by (rule real_less_lsqrt) simp_all
qed

lemma sqrt_50_bounds: "7.071 < sqrt 50" "sqrt 50 < 7.072"
proof -
  show "7.071 < sqrt 50" by (rule real_less_rsqrt) (simp add: power2_eq_square)
  show "sqrt 50 < 7.072" by (rule real_less_lsqrt) (simp_all add: power2_eq_square)
qed

lemma fl_sqrt_450: "fl (sqrt 450) < 24" "21 - 21 / 2 ^ 53 \<le> fl (sqrt 450)"
proof -
  have "fl (sqrt 450) \<le> 22 + 22 / 2 ^ 53"
    using sqrt_450_bounds by (intro fl_le) auto
  then show "fl (sqrt 450) < 24" by simp
  show "21 - 21 / 2 ^ 53 \<le> fl (sqrt 450)"
    using sqrt_450_bounds by (intro fl_ge) auto
qed

lemma fl_sqrt_50: "7.07 < fl (sqrt 50)" "fl (sqrt 50) < 7.08"
proof -
  have "7.071 - 7.071 / 2 ^ 53 \<le> fl (sqrt 50)"
    using sqrt_50_bounds by (intro fl_ge) auto
  then show "7.07 < fl (sqrt 50)" by simp
  have "fl (sqrt 50) \<le> 7.072 + 7.072 / 2 ^ 53"
    using sqrt_50_bounds by (intro fl_le) auto
  then show "fl (sqrt 50) < 7.08" by simp
qed

lemma fl_sqrt_far: "1000 < fl (sqrt 1707552)"
proof -
  have "1001 < sqrt 1707552" by (rule real_less_rsqrt) simp
  then have "1001 - 1001 / 2 ^ 53 \<le> fl (sqrt 1707552)" by (intro fl_ge) auto
  then show ?thesis by simp
qed

lemma scenario_item_distance:
  "itemSize g = 20 \<Longrightarrow> item_distance scenario_player scenario_item g = fl (sqrt 450)"
  by (simp add: item_distance_def scenario_player_def scenario_item_def Let_def fl_exact_values)

lemma centred_item_distance:
  "itemSize g = 20 \<Longrightarrow>
   item_distance scenario_player (scenario_item\<lparr>item_x := 95, item_y := 95\<rparr>) g = fl (sqrt 50)"
  by (simp add: item_distance_def scenario_player_def scenario_item_def Let_def fl_exact_values)

lemma far_item_distance:
  "itemSize g = 20 \<Longrightarrow> item_distance scenario_player (far_item i) g = fl (sqrt 1707552)"
  by (simp add: item_distance_def scenario_player_def far_item_def Let_def fl_exact_values)

lemma picked_scenario_item:
  "itemSize g = 20 \<Longrightarrow> picked scenario_player g scenario_item"
  using fl_sqrt_450(1)
  by (simp add: picked_def scenario_item_distance pickup_radius_20) (simp add: scenario_item_def)

lemma not_picked_far_item:
  "itemSize g = 20 \<Longrightarrow> \<not> picked scenario_player g (far_item i)"
  using fl_sqrt_far
  by (simp add: picked_def far_item_distance pickup_radius_20)

lemma fl_exact_halves:
  "fl (15 / 2) = 15 / 2" "fl (35 / 2) = 35 / 2" "fl (65 / 2) = 65 / 2" "fl (215 / 2) = 215 / 2"
  "fl (- (15 / 2)) = - (15 / 2)" "fl (225 / 4) = 225 / 4" "fl (225 / 2) = 225 / 2"
  "fl 0 = 0"
  using fl_dyadic[of 15 1] fl_dyadic[of 35 1] fl_dyadic[of 65 1] fl_dyadic[of 215 1]
    fl_dyadic[of "- 15" 1] fl_dyadic[of 225 2] fl_dyadic[of 225 1] fl_dyadic[of 0 0]
  by simp_all

lemma snake_reach: "snakeWidth g = 15 \<Longrightarrow> snakeHeight g = 35 \<Longrightarrow>
  fl (15 + fl (max (snakeWidth g) (snakeHeight g) / 2)) = 65 / 2"
  by (simp add: fl_exact_halves)

lemma fl_sqrt_near: "fl (sqrt (225 / 2)) < 65 / 2"
proof -
  have "sqrt (225 / 2) < 11" by (rule real_less_lsqrt) simp_all
  then have "fl (sqrt (225 / 2)) \<le> 11 + 11 / 2 ^ 53" by (intro fl_le) auto
  then show ?thesis by simp
qed

lemma far_snake_distance:
  "snakeWidth g = 15 \<Longrightarrow> snakeHeight g = 35 \<Longrightarrow>
   snake_distance scenario_player (far_snake i) g = fl (sqrt 1707552)"
  by (simp add: snake_distance_def scenario_player_def far_snake_def Let_def fl_exact_values
        fl_exact_halves)

lemma near_snake_distance:
  "snakeWidth g = 15 \<Longrightarrow> snakeHeight g = 35 \<Longrightarrow>
   snake_distance scenario_player (near_snake i) g =
     (if i = 0 then 0 else fl (sqrt (225 / 2)))"
  by (simp add: snake_distance_def scenario_player_def near_snake_def Let_def fl_exact_values
        fl_exact_halves power2_eq_square)

lemma not_touches_far_snake:
  "snakeWidth g = 15 \<Longrightarrow> snakeHeight g = 35 \<Longrightarrow> \<not> snake_touches scenario_player g (far_snake i)"
  using fl_sqrt_far by (simp add: snake_touches_def far_snake_distance fl_exact_halves)

lemma touches_near_snake:
  "snakeWidth g = 15 \<Longrightarrow> snakeHeight g = 35 \<Longrightarrow> snake_touches scenario_player g (near_snake i)"
  using fl_sqrt_near by (simp add: snake_touches_def near_snake_distance fl_exact_halves)

lemma pickItemType_0: "pickItemType 0 = banana"
  by (simp add: pickItemType_def fl_0)

lemma fl_spawn_values:
  "fl 2028 = 2028" "fl 2033 = 2033" "fl 2013 = 2013" "fl 1014 = 1014" "fl 90 = 90"
  "fl (2033 / 2) = 2033 / 2" "fl (2013 / 2) = 2013 / 2" "fl (185 / 2) = 185 / 2"
  "fl (165 / 2) = 165 / 2"
  using fl_dyadic[of 2028 0] fl_dyadic[of 2033 0] fl_dyadic[of 2013 0] fl_dyadic[of 1014 0]
    fl_dyadic[of 90 0] fl_dyadic[of 2033 1] fl_dyadic[of 2013 1] fl_dyadic[of 185 1]
    fl_dyadic[of 165 1]
  by simp_all

subsection \<open>The concrete sessions\<close>

lemma new_GameClient_items:
  "items (new_GameClient w h ri rs) =
     map (\<lambda>i. case ri i of (r, u, v) \<Rightarrow>
            \<lparr>item_id = i, item_type = pickItemType r, item_x = fl (u * 2028),
             item_y = fl (v * 2028),
             collected = False\<rparr>) [0..<50]"
  by (simp add: new_GameClient_def spawnSnakes_def spawnItems_def fl_spawn_values)

lemma new_GameClient_snakes:
  "snakes (new_GameClient w h ri rs) =
     map (\<lambda>i. case rs i of (u, v) \<Rightarrow>
            \<lparr>snake_id = i, snake_x = fl (u * 2033), snake_y = fl (v * 2013)\<rparr>) [0..<15]"
  by (simp add: new_GameClient_def spawnSnakes_def spawnItems_def fl_spawn_values)

lemma new_GameClient_sizes:
  "itemSize (new_GameClient w h ri rs) = 20"
  "snakeWidth (new_GameClient w h ri rs) = 15"
  "snakeHeight (new_GameClient w h ri rs) = 35"
  "worldWidth (new_GameClient w h ri rs) = 2048"
  "worldHeight (new_GameClient w h ri rs) = 2048"
  "canvas_width (new_GameClient w h ri rs) = w"
  "canvas_height (new_GameClient w h ri rs) = h"
  by (simp_all add: new_GameClient_def spawnSnakes_def spawnItems_def)

lemma join_myPlayer:
  "myPlayer (handleServerMessage (JoinGameOk pid ps avs) g) = ps pid"
  by (simp add: handleServerMessage_def Let_def updateCamera_keeps)

lemma scenario_join_myPlayer: "myPlayer (handleServerMessage scenario_join g) = Some scenario_player"
  by (simp add: scenario_join_def join_myPlayer)

lemma updateCamera_sizes:
  "snakeWidth (updateCamera g) = snakeWidth g"
  "snakeHeight (updateCamera g) = snakeHeight g"
  "worldWidth (updateCamera g) = worldWidth g"
  "worldHeight (updateCamera g) = worldHeight g"
  "canvas_width (updateCamera g) = canvas_width g"
  "canvas_height (updateCamera g) = canvas_height g"
  by (simp_all add: updateCamera_def Let_def split: option.splits)

lemma movePlayer_sizes:
  "snakeWidth (movePlayer kd g) = snakeWidth g"
  "snakeHeight (movePlayer kd g) = snakeHeight g"
  "worldWidth (movePlayer kd g) = worldWidth g"
  "worldHeight (movePlayer kd g) = worldHeight g"
  "canvas_width (movePlayer kd g) = canvas_width g"
  "canvas_height (movePlayer kd g) = canvas_height g"
  by (simp_all add: movePlayer_def Let_def updateCamera_sizes split: option.splits prod.splits)

lemma fold_movePlayer_sizes:
  "snakeWidth (fold movePlayer b g) = snakeWidth g"
  "snakeHeight (fold movePlayer b g) = snakeHeight g"
  "worldWidth (fold movePlayer b g) = worldWidth g"
  "worldHeight (fold movePlayer b g) = worldHeight g"
  "canvas_width (fold movePlayer b g) = canvas_width g"
  "canvas_height (fold movePlayer b g) = canvas_height g"
  by (induction b arbitrary: g; simp add: movePlayer_sizes)+

lemma handleServerMessage_sizes:
  "snakeWidth (handleServerMessage m g) = snakeWidth g"
  "snakeHeight (handleServerMessage m g) = snakeHeight g"
  "worldWidth (handleServerMessage m g) = worldWidth g"
  "worldHeight (handleServerMessage m g) = worldHeight g"
  "canvas_width (handleServerMessage m g) = canvas_width g"
  "canvas_height (handleServerMessage m g) = canvas_height g"
  by (cases m; simp add: handleServerMessage_def Let_def updateCamera_sizes fold_movePlayer_sizes)+

lemma upt_0_50: "[0..<50] = 0 # [1..<50]"
  by (simp add: upt_conv_Cons)

lemma item_game_items: "items item_game = scenario_item # map far_item [1..<50]"
proof -
  have a: "items item_game =
     map (\<lambda>i. case item_draws i of (r, u, v) \<Rightarrow>
            \<lparr>item_id = i, item_type = pickItemType r, item_x = fl (u * 2028),
             item_y = fl (v * 2028),
             collected = False\<rparr>) [0..<50]"
    by (simp only: item_game_def handleServerMessage_keeps new_GameClient_items)
  show ?thesis
    unfolding a upt_0_50
    by (simp add: item_draws_def scenario_item_def far_item_def pickItemType_0
          fl_exact_values fl_spawn_values)
qed

lemma far_items_game_items:
  "items (handleServerMessage m (new_GameClient w h far_item_draws rs)) = map far_item [0..<50]"
  by (simp add: handleServerMessage_keeps new_GameClient_items far_item_draws_def far_item_def
        pickItemType_0 fl_spawn_values)

lemma item_game_fields:
  "myPlayer item_game = Some scenario_player"
  "itemSize item_game = 20"
  "playerHealth item_game = 100"
  "inventory item_game = \<lparr>bananas = 0, apples = 0, blueberries = 0\<rparr>"
  "floatingTexts item_game = []"
  "lastSnakeDamage item_game = 0"
  "snakeWidth item_game = 15"
  "snakeHeight item_game = 35"
  by (simp_all add: item_game_def scenario_join_myPlayer handleServerMessage_keeps
        handleServerMessage_sizes new_GameClient_fields new_GameClient_sizes)

lemma item_game_picked:
  "filter (picked scenario_player item_game) (items item_game) = [scenario_item]"
  by (simp add: item_game_items picked_scenario_item not_picked_far_item item_game_fields)

lemma reachable_item_game: "reachable item_game"
proof -
  have "reachable (step (Message scenario_join) (new_GameClient 800 600 item_draws far_snake_draws))"
    by (rule reach_step) (rule reach_start)
  then show ?thesis by (simp add: item_game_def)
qed

subsection \<open>Lifetimes of the texts\<close>









subsection \<open>The inventory\<close>

lemma reachable_inventory: "reachable g \<Longrightarrow> counter ty (inventory g) = count_collected ty (items g)"
proof (induction rule: reachable.induct)
  case (reach_start w h ri rs)
  have "filter (\<lambda>it. collected it \<and> item_type it = ty) (items (new_GameClient w h ri rs)) = []"
    by (simp add: filter_empty_conv new_GameClient_uncollected)
  then show ?case
    by (cases ty) (simp_all add: count_collected_def counter_def new_GameClient_fields)
next
  case (reach_step g e)
  show ?case
  proof (cases e)
    case (Frame now)
    with reach_step.IH checkItemCollisions_counter[of ty g] show ?thesis
      by (simp add: render_fields)
  next
    case (Message m)
    with reach_step.IH show ?thesis by (simp add: handleServerMessage_keeps)
  next
    case (Resize w h)
    with reach_step.IH show ?thesis by (simp add: resize_keeps)
  qed
qed

lemma count_collected_sum:
  "count_collected banana its + count_collected apple its + count_collected blueberry its =
   int (length (filter collected its))"
proof (induction its)
  case Nil
  show ?case by (simp add: count_collected_def)
next
  case (Cons it its)
  then show ?case by (cases "item_type it") (simp_all add: count_collected_def)
qed

lemma fold_inc_inventory_counter:
  "counter ty (fold (\<lambda>it. inc_inventory (item_type it)) xs c) =
     counter ty c + int (length (filter (\<lambda>it. item_type it = ty) xs))"
  by (induction xs arbitrary: c) (simp_all add: counter_inc_inventory)

lemma checkItemCollisions_counter_mono:
  "counter ty (inventory g) \<le> counter ty (inventory (checkItemCollisions g))"
  by (simp add: checkItemCollisions_inventory forEach_item_inventory fold_inc_inventory_counter
        split: option.splits)

lemma step_counter_mono: "counter ty (inventory g) \<le> counter ty (inventory (step e g))"
  by (cases e)
     (simp_all add: render_fields checkItemCollisions_counter_mono handleServerMessage_keeps
        resize_keeps)

subsection \<open>Snakes of the concrete sessions\<close>

lemma far_snakes_game_snakes:
  "snakes (handleServerMessage m (new_GameClient w h ri far_snake_draws)) = map far_snake [0..<15]"
  by (simp add: handleServerMessage_keeps new_GameClient_snakes far_snake_draws_def far_snake_def
        fl_spawn_values)

lemma filter_map_none: "(\<And>i. \<not> P (f i)) \<Longrightarrow> filter P (map f xs) = []"
  by (simp add: filter_empty_conv)

lemma item_game_snakes: "snakes item_game = map far_snake [0..<15]"
  by (simp only: item_game_def far_snakes_game_snakes)

lemma checkItem_sizes:
  "snakeWidth (snd (checkItem p it g)) = snakeWidth g"
  "snakeHeight (snd (checkItem p it g)) = snakeHeight g"
  by (simp_all add: checkItem_eq collectItem_def Let_def addFloatingText_def)

lemma forEach_item_snakeWidth: "snakeWidth (snd (forEach_item p its g)) = snakeWidth g"
  by (induction its arbitrary: g) (simp_all only: forEach_item.simps(1) forEach_item_Cons snd_conv checkItem_sizes)

lemma forEach_item_snakeHeight: "snakeHeight (snd (forEach_item p its g)) = snakeHeight g"
  by (induction its arbitrary: g) (simp_all only: forEach_item.simps(1) forEach_item_Cons snd_conv checkItem_sizes)

lemma checkItemCollisions_sizes:
  "snakeWidth (checkItemCollisions g) = snakeWidth g"
  "snakeHeight (checkItemCollisions g) = snakeHeight g"
proof -
  show "snakeWidth (checkItemCollisions g) = snakeWidth g"
    using forEach_item_snakeWidth
    by (simp add: checkItemCollisions_def split: option.splits prod.splits) (metis snd_conv)
  show "snakeHeight (checkItemCollisions g) = snakeHeight g"
    using forEach_item_snakeHeight
    by (simp add: checkItemCollisions_def split: option.splits prod.splits) (metis snd_conv)
qed

lemma item_game_no_touch:
  "snakeWidth g = 15 \<Longrightarrow> snakeHeight g = 35 \<Longrightarrow>
   filter (snake_touches scenario_player g) (map far_snake xs) = []"
  by (rule filter_map_none) (rule not_touches_far_snake)

lemma picked_game_fields:
  "myPlayer picked_game = Some scenario_player"
  "inventory picked_game = \<lparr>bananas = 1, apples = 0, blueberries = 0\<rparr>"
  "items picked_game = scenario_item\<lparr>collected := True\<rparr> # map far_item [1..<50]"
  "playerHealth picked_game = 100"
  "floatingTexts picked_game = [age_text (heal_text scenario_player)]"
proof -
  show "myPlayer picked_game = Some scenario_player"
    by (simp add: picked_game_def render_fields item_game_fields)
  show "inventory picked_game = \<lparr>bananas = 1, apples = 0, blueberries = 0\<rparr>"
    by (simp add: picked_game_def render_fields checkItemCollisions_inventory
          forEach_item_inventory item_game_fields item_game_picked inc_inventory_def
          scenario_item_def)
  show "items picked_game = scenario_item\<lparr>collected := True\<rparr> # map far_item [1..<50]"
    by (simp add: picked_game_def render_fields checkItemCollisions_items_map item_game_fields
          item_game_items picked_scenario_item not_picked_far_item)
  have h: "playerHealth (checkItemCollisions item_game) = 100"
    by (simp add: checkItemCollisions_health item_game_fields item_game_picked heal_def)
  have t: "floatingTexts (checkItemCollisions item_game) = [heal_text scenario_player]"
    by (simp add: checkItemCollisions_texts item_game_fields item_game_picked)
  have n: "filter (snake_touches scenario_player (checkItemCollisions item_game))
             (snakes item_game) = []"
    by (simp only: item_game_snakes)
       (rule item_game_no_touch; simp add: checkItemCollisions_sizes item_game_fields)
  show "playerHealth picked_game = 100"
    by (simp add: picked_game_def render_fields checkSnakeCollisions_health
          checkItemCollisions_keeps item_game_fields n h)
  show "floatingTexts picked_game = [age_text (heal_text scenario_player)]"
    by (simp add: picked_game_def render_fields checkSnakeCollisions_texts
          checkItemCollisions_keeps item_game_fields n t Let_def age_text_fields heal_text_def)
qed

subsection \<open>The pickup test\<close>

lemma checkItemCollisions_nth:
  assumes "myPlayer g = Some p" "i < length (items g)"
  shows "items (checkItemCollisions g) ! i =
           (if picked p g (items g ! i) then (items g ! i)\<lparr>collected := True\<rparr> else items g ! i)"
  using assms by (simp add: checkItemCollisions_items_map)

lemma checkItemCollisions_nth_collected:
  assumes "myPlayer g = Some p" "i < length (items g)" "\<not> collected (items g ! i)"
  shows "collected (items (checkItemCollisions g) ! i) \<longleftrightarrow> picked p g (items g ! i)"
  using assms by (simp add: checkItemCollisions_nth)

lemma checkItem_pickup:
  assumes "picked p g it"
  shows "checkItem p it g = collectItem p it g"
    "collected (fst (checkItem p it g))"
    "counter (item_type it) (inventory (snd (checkItem p it g))) =
       counter (item_type it) (inventory g) + 1"
    "playerHealth (snd (checkItem p it g)) = min 100 (playerHealth g + 5)"
    "floatingTexts (snd (checkItem p it g)) = floatingTexts g @ [heal_text p]"
  using assms
  by (simp_all add: checkItem_picked collectItem_fst collectItem_snd counter_inc_inventory
        collectItem_texts heal_text_def)

lemma checkItem_no_pickup: "\<not> picked p g it \<Longrightarrow> checkItem p it g = (it, g)"
  by (simp add: checkItem_picked)

lemma reachable_picked_game: "reachable picked_game"
  unfolding picked_game_def by (rule reach_step) (rule reachable_item_game)

lemma checkSnake_itemSize: "itemSize (checkSnake p t sn g) = itemSize g"
  by (simp add: checkSnake_eq takeSnakeDamage_def addFloatingText_def)

lemma fold_checkSnake_itemSize: "itemSize (fold (checkSnake p t) sns g) = itemSize g"
  by (induction sns arbitrary: g) (simp_all add: checkSnake_itemSize)

lemma render_itemSize: "itemSize (render t g) = itemSize g"
  by (simp add: render_def updateFloatingTexts_def checkSnakeCollisions_def
        fold_checkSnake_itemSize checkItemCollisions_keeps split: option.splits)

lemma sqrt_576: "sqrt 576 = 24"
  by (rule real_sqrt_unique) simp_all

lemma fl_edge_dy: "fl (1687383207915847 / 70368744177664) = 1687383207915847 / 70368744177664"
  using fl_dyadic[of 1687383207915847 46] by simp

lemma fl_edge_square: "fl ((1687383207915847 / 70368744177664)\<^sup>2) = 575"
proof -
  have "fl ((1687383207915847 / 70368744177664)\<^sup>2) =
          2 powr of_int (9 - 52) * of_int (575 * 2 ^ 43)"
    by (rule fl_round_to) (simp_all add: powr_neg_numeral power2_eq_square)
  then show ?thesis by (simp add: powr_neg_numeral)
qed

lemma edge_item_distance: "itemSize g = 20 \<Longrightarrow> item_distance edge_player edge_item g = 24"
  by (simp add: item_distance_def edge_player_def edge_item_def Let_def fl_exact_values
        fl_edge_dy fl_edge_square sqrt_576)

lemma edge_not_picked: "itemSize g = 20 \<Longrightarrow> \<not> picked edge_player g edge_item"
  by (simp add: picked_def edge_item_distance pickup_radius_20)

lemma edge_exact_distance:
  "sqrt ((player_x edge_player - (item_x edge_item + 20 / 2))\<^sup>2 +
         (player_y edge_player - (item_y edge_item + 20 / 2))\<^sup>2)
     < (15 + 20 / 2) - 0.1 * (20 / 2)"
proof -
  have "sqrt ((player_x edge_player - (item_x edge_item + 20 / 2))\<^sup>2 +
         (player_y edge_player - (item_y edge_item + 20 / 2))\<^sup>2) < 24"
    by (rule real_less_lsqrt) (simp_all add: edge_player_def edge_item_def power2_eq_square)
  then show ?thesis by simp
qed

subsection \<open>Batches of moved players\<close>

lemma movePlayer_players:
  "players (movePlayer (k, d) g) =
     (case players g k of None \<Rightarrow> players g | Some old \<Rightarrow> (players g)(k \<mapsto> spread old d))"
  by (simp add: movePlayer_def Let_def updateCamera_keeps split: option.splits)

lemma handle_PlayersMoved: "handleServerMessage (PlayersMoved b) g = fold movePlayer b g"
  by (simp add: handleServerMessage_def)

lemma join_players: "players (handleServerMessage (JoinGameOk pid ps avs) g) = ps"
  by (simp add: handleServerMessage_def Let_def updateCamera_keeps)

lemma join_playerId: "game_playerId (handleServerMessage (JoinGameOk pid ps avs) g) = Some pid"
  by (simp add: handleServerMessage_def Let_def updateCamera_keeps)

lemma item_game_players:
  "players item_game = [''me'' \<mapsto> scenario_player]"
  "game_playerId item_game = Some ''me''"
  by (simp_all add: item_game_def scenario_join_def join_players join_playerId)

subsection \<open>The session with two snakes in reach\<close>

lemma upt_0_15: "[0..<15] = 0 # 1 # [2..<15]"
  by (simp add: upt_conv_Cons)

lemma snake_game_snakes: "snakes snake_game = near_snake 0 # near_snake 1 # map far_snake [2..<15]"
proof -
  have a: "snakes snake_game =
     map (\<lambda>i. case near_snake_draws i of (u, v) \<Rightarrow>
            \<lparr>snake_id = i, snake_x = fl (u * 2033), snake_y = fl (v * 2013)\<rparr>) [0..<15]"
    by (simp only: snake_game_def handleServerMessage_keeps new_GameClient_snakes)
  show ?thesis
    unfolding a upt_0_15
    by (simp add: near_snake_draws_def near_snake_def far_snake_def fl_exact_values
          fl_spawn_values)
qed

lemma snake_game_fields:
  "myPlayer snake_game = Some scenario_player"
  "itemSize snake_game = 20"
  "playerHealth snake_game = 100"
  "floatingTexts snake_game = []"
  "lastSnakeDamage snake_game = 0"
  "snakeWidth snake_game = 15"
  "snakeHeight snake_game = 35"
  by (simp_all add: snake_game_def scenario_join_myPlayer handleServerMessage_keeps
        handleServerMessage_sizes new_GameClient_fields new_GameClient_sizes)

lemma snake_game_items: "items snake_game = map far_item [0..<50]"
  by (simp only: snake_game_def far_items_game_items)

lemma snake_game_no_pick: "filter (picked scenario_player snake_game) (items snake_game) = []"
  unfolding snake_game_items
  by (rule filter_map_none) (rule not_picked_far_item, rule snake_game_fields)

lemma snake_game_after_items:
  "playerHealth (checkItemCollisions snake_game) = 100"
  "floatingTexts (checkItemCollisions snake_game) = []"
  by (simp_all add: checkItemCollisions_health checkItemCollisions_texts snake_game_fields(1,3,4)
        snake_game_no_pick)

lemma snake_game_touches:
  "filter (snake_touches scenario_player (checkItemCollisions snake_game)) (snakes snake_game) =
     [near_snake 0, near_snake 1]"
proof -
  have w: "snakeWidth (checkItemCollisions snake_game) = 15"
    "snakeHeight (checkItemCollisions snake_game) = 35"
    by (simp_all add: checkItemCollisions_sizes snake_game_fields)
  have f: "filter (snake_touches scenario_player (checkItemCollisions snake_game))
             (map far_snake [2..<15]) = []"
    by (rule item_game_no_touch) (rule w)+
  show ?thesis
    unfolding snake_game_snakes using f by (simp add: touches_near_snake w)
qed

lemma bitten_game_fields:
  "myPlayer bitten_game = Some scenario_player"
  "playerHealth bitten_game = 90"
  "floatingTexts bitten_game =
     [age_text (damage_text scenario_player), age_text (damage_text scenario_player)]"
proof -
  show "myPlayer bitten_game = Some scenario_player"
    by (simp add: bitten_game_def render_fields snake_game_fields)
  have c: "\<not> (5000 - lastSnakeDamage (checkItemCollisions snake_game) < 1000)"
    by (simp add: checkItemCollisions_keeps snake_game_fields)
  have m: "myPlayer (checkItemCollisions snake_game) = Some scenario_player"
    by (simp add: checkItemCollisions_keeps snake_game_fields)
  have s: "snakes (checkItemCollisions snake_game) = snakes snake_game"
    by (rule checkItemCollisions_keeps)
  show "playerHealth bitten_game = 90"
    unfolding bitten_game_def step.simps render_fields checkSnakeCollisions_health m s
    using c by (simp add: snake_game_touches snake_game_after_items bite_def)
  show "floatingTexts bitten_game =
     [age_text (damage_text scenario_player), age_text (damage_text scenario_player)]"
    unfolding bitten_game_def step.simps render_fields checkSnakeCollisions_texts m s
    using c by (simp add: snake_game_touches snake_game_after_items Let_def age_text_fields
        damage_text_def)
qed

lemma reachable_snake_game: "reachable snake_game"
proof -
  have "reachable (step (Message scenario_join) (new_GameClient 800 600 far_item_draws near_snake_draws))"
    by (rule reach_step) (rule reach_start)
  then show ?thesis by (simp add: snake_game_def)
qed

lemma cooldown_skips_frame:
  "now - lastSnakeDamage g < 1000 \<Longrightarrow> checkSnakeCollisions now g = g"
  by (simp add: checkSnakeCollisions_def split: option.splits)

subsection \<open>The local player and its entry\<close>

lemma alias_ok_join: "alias_ok (handleServerMessage (JoinGameOk pid ps avs) g)"
  by (simp add: alias_ok_def join_myPlayer join_players join_playerId split: option.splits)

lemma movePlayer_myPlayer:
  "myPlayer (movePlayer (k, d) g) =
     (case players g k of
        None \<Rightarrow> myPlayer g
      | Some old \<Rightarrow> if Some k = game_playerId g then Some (spread old d) else myPlayer g)"
  by (simp add: movePlayer_def Let_def updateCamera_keeps split: option.splits)

lemma alias_ok_movePlayer: "alias_ok g \<Longrightarrow> alias_ok (movePlayer kd g)"
  by (cases kd)
     (auto simp add: alias_ok_def movePlayer_myPlayer movePlayer_players movePlayer_keeps
        split: option.splits)

lemma alias_ok_fold_movePlayer: "alias_ok g \<Longrightarrow> alias_ok (fold movePlayer b g)"
  by (induction b arbitrary: g) (simp_all add: alias_ok_movePlayer)

lemma alias_ok_other_messages:
  assumes "alias_ok g"
  shows "alias_ok (handleServerMessage (PlayersMoved b) g)"
    "alias_ok (handleServerMessage (JoinGameFail err) g)"
    "alias_ok (handleServerMessage (Unhandled act) g)"
    "Some pid \<noteq> game_playerId g \<Longrightarrow> alias_ok (handleServerMessage (PlayerLeft pid) g)"
    "Some (playerId pl) \<noteq> game_playerId g \<Longrightarrow> alias_ok (handleServerMessage (PlayerJoined pl av) g)"
proof -
  show "alias_ok (handleServerMessage (PlayersMoved b) g)"
    using assms by (simp add: handle_PlayersMoved alias_ok_fold_movePlayer)
  show "alias_ok (handleServerMessage (JoinGameFail err) g)"
    using assms by (simp add: handleServerMessage_def)
  show "alias_ok (handleServerMessage (Unhandled act) g)"
    using assms by (simp add: handleServerMessage_def)
  show "Some pid \<noteq> game_playerId g \<Longrightarrow> alias_ok (handleServerMessage (PlayerLeft pid) g)"
    using assms by (auto simp add: handleServerMessage_def alias_ok_def split: option.splits)
  show "Some (playerId pl) \<noteq> game_playerId g \<Longrightarrow> alias_ok (handleServerMessage (PlayerJoined pl av) g)"
    using assms by (auto simp add: handleServerMessage_def alias_ok_def Let_def split: option.splits)
qed

lemma no_player_checks:
  assumes "myPlayer g = None"
  shows "checkItemCollisions g = g" "checkSnakeCollisions now g = g"
    "render now g = updateFloatingTexts g"
  using assms by (simp_all add: checkItemCollisions_def checkSnakeCollisions_def render_def)

lemma no_texts_update: "floatingTexts g = [] \<Longrightarrow> updateFloatingTexts g = g"
  by (simp add: updateFloatingTexts_def)

subsection \<open>Before the first acknowledgment\<close>

lemma movePlayer_no_local_id:
  "game_playerId g = None \<Longrightarrow> myPlayer (movePlayer kd g) = myPlayer g"
  by (cases kd) (simp add: movePlayer_myPlayer split: option.splits)

lemma fold_movePlayer_no_local_id:
  "game_playerId g = None \<Longrightarrow> myPlayer (fold movePlayer b g) = myPlayer g"
  by (induction b arbitrary: g) (simp_all add: movePlayer_no_local_id movePlayer_keeps)

lemma handleServerMessage_playerId:
  "not_join (Message m) \<Longrightarrow> game_playerId (handleServerMessage m g) = game_playerId g"
  by (cases m) (simp_all add: handleServerMessage_def Let_def fold_movePlayer_keeps)

lemma handleServerMessage_no_local_id:
  "not_join (Message m) \<Longrightarrow> game_playerId g = None \<Longrightarrow>
   myPlayer (handleServerMessage m g) = myPlayer g"
  by (cases m) (simp_all add: handleServerMessage_def Let_def fold_movePlayer_no_local_id)

lemma step_before_join:
  assumes "not_join e" "myPlayer g = None" "game_playerId g = None" "floatingTexts g = []"
  shows "myPlayer (step e g) = None \<and> game_playerId (step e g) = None \<and> floatingTexts (step e g) = []"
proof (cases e)
  case (Frame now)
  have "render now g = g"
    using assms(2,4) by (simp add: no_player_checks no_texts_update)
  then show ?thesis using assms by (simp add: Frame)
next
  case (Message m)
  then show ?thesis
    using assms
    by (simp add: handleServerMessage_playerId handleServerMessage_no_local_id
          handleServerMessage_keeps)
next
  case (Resize w h)
  then show ?thesis
    using assms by (simp add: resize_def updateCamera_keeps)
qed

lemma run_before_join:
  "list_all not_join es \<Longrightarrow> myPlayer g = None \<Longrightarrow> game_playerId g = None \<Longrightarrow>
   floatingTexts g = [] \<Longrightarrow>
   myPlayer (fold step es g) = None \<and> floatingTexts (fold step es g) = []"
proof (induction es arbitrary: g)
  case Nil
  then show ?case by simp
next
  case (Cons e es)
  from Cons.prems have ne: "not_join e" and nes: "list_all not_join es" by simp_all
  from step_before_join[OF ne Cons.prems(2,3,4)]
  have s: "myPlayer (step e g) = None" "game_playerId (step e g) = None"
    "floatingTexts (step e g) = []" by simp_all
  from Cons.IH[OF nes s] show ?case by simp
qed

lemma new_GameClient_playerId: "game_playerId (new_GameClient w h ri rs) = None"
  by (simp add: new_GameClient_def spawnSnakes_def spawnItems_def)

subsection \<open>The session at the bound\<close>

lemma edge_game_items: "items edge_game = edge_item # map far_item [1..<50]"
proof -
  have a: "items edge_game =
     map (\<lambda>i. case edge_item_draws i of (r, u, v) \<Rightarrow>
            \<lparr>item_id = i, item_type = pickItemType r, item_x = fl (u * 2028),
             item_y = fl (v * 2028),
             collected = False\<rparr>) [0..<50]"
    by (simp only: edge_game_def handleServerMessage_keeps new_GameClient_items)
  show ?thesis
    unfolding a upt_0_50
    by (simp add: edge_item_draws_def edge_item_def far_item_def pickItemType_0
          fl_exact_halves fl_spawn_values)
qed

lemma edge_game_fields:
  "myPlayer edge_game = Some edge_player"
  "itemSize edge_game = 20"
  by (simp_all add: edge_game_def join_myPlayer handleServerMessage_keeps new_GameClient_sizes)

lemma reachable_edge_game: "reachable edge_game"
proof -
  have "reachable (step (Message (JoinGameOk ''me'' [''me'' \<mapsto> edge_player] Map.empty))
          (new_GameClient 800 600 edge_item_draws far_snake_draws))"
    by (rule reach_step) (rule reach_start)
  then show ?thesis by (simp add: edge_game_def)
qed

subsection \<open>The local id before the first acknowledgment\<close>

lemma checkItem_playerId: "game_playerId (snd (checkItem p it g)) = game_playerId g"
  by (simp add: checkItem_eq collectItem_def Let_def addFloatingText_def)

lemma forEach_item_playerId: "game_playerId (snd (forEach_item p its g)) = game_playerId g"
  by (induction its arbitrary: g) (simp_all only: forEach_item.simps(1) forEach_item_Cons snd_conv checkItem_playerId)

lemma checkItemCollisions_playerId: "game_playerId (checkItemCollisions g) = game_playerId g"
  using forEach_item_playerId
  by (simp add: checkItemCollisions_def split: option.splits prod.splits) (metis snd_conv)

lemma checkSnake_playerId: "game_playerId (checkSnake p t sn g) = game_playerId g"
  by (simp add: checkSnake_eq takeSnakeDamage_def addFloatingText_def)

lemma fold_checkSnake_playerId: "game_playerId (fold (checkSnake p t) sns g) = game_playerId g"
  by (induction sns arbitrary: g) (simp_all add: checkSnake_playerId)

lemma render_playerId: "game_playerId (render t g) = game_playerId g"
  by (simp add: render_def updateFloatingTexts_def checkSnakeCollisions_def
        fold_checkSnake_playerId checkItemCollisions_playerId split: option.splits)

lemma step_playerId_kept: "not_join e \<Longrightarrow> game_playerId (step e g) = game_playerId g"
proof (cases e)
  case (Frame now)
  then show ?thesis by (simp add: render_playerId)
next
  case (Message m)
  assume "not_join e"
  with Message show ?thesis by (simp add: handleServerMessage_playerId)
next
  case (Resize w h)
  then show ?thesis by (simp add: resize_def updateCamera_keeps)
qed

lemma step_join_sets_playerId:
  "\<not> not_join e \<Longrightarrow> game_playerId (step e g) \<noteq> None"
proof (cases e)
  case (Message m)
  assume n: "\<not> not_join e"
  with Message obtain pid ps avs where "m = JoinGameOk pid ps avs" by (cases m) auto
  with Message show ?thesis by (simp add: join_playerId)
qed auto

lemma reachable_before_join:
  "reachable g \<Longrightarrow> game_playerId g = None \<Longrightarrow> myPlayer g = None \<and> floatingTexts g = []"
proof (induction rule: reachable.induct)
  case (reach_start w h rndItems rndSnakes)
  show ?case by (simp add: new_GameClient_fields)
next
  case (reach_step g e)
  have nj: "not_join e"
    using step_join_sets_playerId[of e g] reach_step.prems by blast
  have p: "game_playerId g = None"
    using step_playerId_kept[OF nj, of g] reach_step.prems by simp
  from reach_step.IH[OF p] have q: "myPlayer g = None" "floatingTexts g = []" by simp_all
  from step_before_join[OF nj q(1) p q(2)] show ?case by simp
qed

lemma run_playerId_before_join:
  "list_all not_join es \<Longrightarrow> game_playerId (fold step es g) = game_playerId g"
  by (induction es arbitrary: g) (simp_all add: step_playerId_kept)

section \<open>The claims\<close>

text \<open>
  C2. With a local player, \<^verbatim>\<open>updateCamera\<close> sets each axis on its own: where the
  canvas is strictly smaller than the world, the offset is the player's position minus
  half the canvas, clamped into \<open>[0, world - canvas]\<close>; where the canvas is at least as
  large as the world, the offset is \<open>(world - canvas) / 2\<close>, whatever the position.
\<close>

theorem updateCamera_offsets:
  assumes "myPlayer g = Some p"
  shows "cameraX (updateCamera g) =
           (if canvas_width g < worldWidth g
            then clamp_into 0 (worldWidth g - canvas_width g) (player_x p - canvas_width g / 2)
            else (worldWidth g - canvas_width g) / 2)
       \<and> cameraY (updateCamera g) =
           (if canvas_height g < worldHeight g
            then clamp_into 0 (worldHeight g - canvas_height g) (player_y p - canvas_height g / 2)
            else (worldHeight g - canvas_height g) / 2)
       \<and> (canvas_width g < worldWidth g \<longrightarrow>
            0 \<le> cameraX (updateCamera g) \<and> cameraX (updateCamera g) \<le> worldWidth g - canvas_width g)
       \<and> (canvas_height g < worldHeight g \<longrightarrow>
            0 \<le> cameraY (updateCamera g) \<and> cameraY (updateCamera g) \<le> worldHeight g - canvas_height g)"
  using assms by (simp add: updateCamera_def clamp_into_def Let_def min_def max_def)

theorem updateCamera_offsets_witness:
  "myPlayer item_game = Some scenario_player
   \<and> cameraX (updateCamera item_game) = 0 \<and> cameraY (updateCamera item_game) = 0
   \<and> cameraX (updateCamera (item_game\<lparr>canvas_width := 3000, canvas_height := 3000\<rparr>)) = - 476
   \<and> cameraY (updateCamera (item_game\<lparr>canvas_width := 3000, canvas_height := 3000\<rparr>)) = - 476"
proof -
  have p: "myPlayer item_game = Some scenario_player"
    by (simp add: item_game_def scenario_join_myPlayer)
  have q: "myPlayer (item_game\<lparr>canvas_width := 3000, canvas_height := 3000\<rparr>) = Some scenario_player"
    using p by simp
  have s: "worldWidth item_game = 2048" "worldHeight item_game = 2048"
    "canvas_width item_game = 800" "canvas_height item_game = 600"
    by (simp_all add: item_game_def handleServerMessage_sizes new_GameClient_sizes)
  show ?thesis
    using updateCamera_offsets[OF p] updateCamera_offsets[OF q] p s
    by (simp add: clamp_into_def scenario_player_def)
qed

text \<open>
  C3. Collecting an item sets the health to \<open>min 100 (h + 5)\<close> and a snake bite sets it
  to \<open>max 0 (h - 5)\<close>; from a health in \<open>[0, 100]\<close> both results, and the health
  after any frame, message or resize, are in \<open>[0, 100]\<close> again, and so is the health
  of every reachable state.
\<close>

theorem health_stays_in_range:
  "playerHealth (snd (collectItem p it g)) = min 100 (playerHealth g + 5)
   \<and> playerHealth (takeSnakeDamage p g) = max 0 (playerHealth g - 5)
   \<and> (in_range (playerHealth g) \<longrightarrow>
         in_range (playerHealth (snd (collectItem p it g)))
       \<and> in_range (playerHealth (takeSnakeDamage p g))
       \<and> in_range (playerHealth (checkItemCollisions g))
       \<and> in_range (playerHealth (checkSnakeCollisions now g))
       \<and> in_range (playerHealth (step e g)))
   \<and> (reachable g \<longrightarrow> in_range (playerHealth g))"
proof -
  have a: "playerHealth (snd (collectItem p it g)) = min 100 (playerHealth g + 5)"
    by (rule collectItem_snd)
  have b: "playerHealth (takeSnakeDamage p g) = max 0 (playerHealth g - 5)"
    by (simp add: takeSnakeDamage_fields bite_def)
  have c: "in_range (playerHealth g) \<Longrightarrow> in_range (playerHealth (snd (collectItem p it g)))"
    unfolding a using heal_in_range[of "playerHealth g"] by (simp add: heal_def)
  have d: "in_range (playerHealth g) \<Longrightarrow> in_range (playerHealth (takeSnakeDamage p g))"
    unfolding b using bite_in_range[of "playerHealth g"] by (simp add: bite_def)
  show ?thesis
    using a b c d checkItemCollisions_in_range[of g] checkSnakeCollisions_in_range[of g now]
      step_in_range[of g e] reachable_in_range[of g]
    by blast
qed

theorem health_stays_in_range_witness:
  "in_range (playerHealth item_game) \<and> reachable item_game
   \<and> playerHealth (snd (collectItem scenario_player scenario_item item_game)) = 100
   \<and> playerHealth (takeSnakeDamage scenario_player item_game) = 95
   \<and> in_range (playerHealth (step (Frame 5000) item_game))"
  using health_stays_in_range[of scenario_player scenario_item item_game 5000 "Frame 5000"]
    reachable_item_game
  by (simp add: item_game_fields in_range_def)



text \<open>
  C10. In every reachable state each counter of the inventory is the number of collected
  items of its type, so the three counters add up to the number of collected items. No
  frame, message or resize lowers a counter; \<^verbatim>\<open>collectItem\<close> adds one to the
  counter of the item's type and leaves the other two; the visit of an item that is not
  picked up, the snake check, the aging of texts, the messages and the resize leave the
  inventory as it is.
\<close>

theorem inventory_counts_collected_items:
  "(reachable g \<longrightarrow>
        bananas (inventory g) = count_collected banana (items g)
      \<and> apples (inventory g) = count_collected apple (items g)
      \<and> blueberries (inventory g) = count_collected blueberry (items g)
      \<and> bananas (inventory g) + apples (inventory g) + blueberries (inventory g) =
          int (length (filter collected (items g))))
   \<and> bananas (inventory g) \<le> bananas (inventory (step e g))
   \<and> apples (inventory g) \<le> apples (inventory (step e g))
   \<and> blueberries (inventory g) \<le> blueberries (inventory (step e g))
   \<and> counter (item_type it) (inventory (snd (collectItem p it g))) =
        counter (item_type it) (inventory g) + 1
   \<and> (ty \<noteq> item_type it \<longrightarrow>
        counter ty (inventory (snd (collectItem p it g))) = counter ty (inventory g))
   \<and> (\<not> picked p g it \<longrightarrow> inventory (snd (checkItem p it g)) = inventory g)
   \<and> inventory (checkSnakeCollisions now g) = inventory g
   \<and> inventory (updateFloatingTexts g) = inventory g
   \<and> inventory (handleServerMessage m g) = inventory g
   \<and> inventory (resize w h g) = inventory g"
proof -
  have r: "reachable g \<Longrightarrow>
        bananas (inventory g) = count_collected banana (items g)
      \<and> apples (inventory g) = count_collected apple (items g)
      \<and> blueberries (inventory g) = count_collected blueberry (items g)
      \<and> bananas (inventory g) + apples (inventory g) + blueberries (inventory g) =
          int (length (filter collected (items g)))"
    using reachable_inventory[of g banana] reachable_inventory[of g apple]
      reachable_inventory[of g blueberry] count_collected_sum[of "items g"]
    by (simp add: counter_def)
  have m: "bananas (inventory g) \<le> bananas (inventory (step e g))"
    "apples (inventory g) \<le> apples (inventory (step e g))"
    "blueberries (inventory g) \<le> blueberries (inventory (step e g))"
    using step_counter_mono[of banana g e] step_counter_mono[of apple g e]
      step_counter_mono[of blueberry g e]
    by (simp_all add: counter_def)
  have c1: "counter (item_type it) (inventory (snd (collectItem p it g))) =
        counter (item_type it) (inventory g) + 1"
    by (simp add: collectItem_snd counter_inc_inventory)
  have c2: "ty \<noteq> item_type it \<Longrightarrow>
        counter ty (inventory (snd (collectItem p it g))) = counter ty (inventory g)"
    by (simp add: collectItem_snd counter_inc_inventory)
  have n: "\<not> picked p g it \<Longrightarrow> inventory (snd (checkItem p it g)) = inventory g"
    by (simp add: checkItem_no_pickup)
  show ?thesis
    by (intro conjI impI)
       (erule r[THEN conjunct1] r[THEN conjunct2, THEN conjunct1]
          r[THEN conjunct2, THEN conjunct2, THEN conjunct1]
          r[THEN conjunct2, THEN conjunct2, THEN conjunct2] c2 n
        | rule m c1 checkSnakeCollisions_keeps updateFloatingTexts_keeps
            handleServerMessage_keeps resize_keeps)+
qed

theorem inventory_counts_collected_items_witness:
  "reachable picked_game
   \<and> bananas (inventory picked_game) = 1
   \<and> apples (inventory picked_game) = 0
   \<and> blueberries (inventory picked_game) = 0
   \<and> int (length (filter collected (items picked_game))) = 1
   \<and> apple \<noteq> item_type scenario_item
   \<and> apples (inventory (snd (collectItem scenario_player scenario_item item_game))) = 0
   \<and> bananas (inventory (snd (collectItem scenario_player scenario_item item_game))) = 1
   \<and> \<not> picked scenario_player item_game (far_item 1)
   \<and> inventory (snd (checkItem scenario_player (far_item 1) item_game)) = inventory item_game"
proof -
  have f: "\<not> picked scenario_player item_game (far_item 1)"
    by (rule not_picked_far_item) (rule item_game_fields)
  have a: "apple \<noteq> item_type scenario_item" by (simp add: scenario_item_def)
  show ?thesis
    using inventory_counts_collected_items[of picked_game "Frame 0" scenario_item
        scenario_player apple 0 "Unhandled []" 0 0]
      inventory_counts_collected_items[of item_game "Frame 0" scenario_item
        scenario_player apple 0 "Unhandled []" 0 0]
      inventory_counts_collected_items[of item_game "Frame 0" "far_item 1"
        scenario_player apple 0 "Unhandled []" 0 0]
      reachable_picked_game f a
    by (simp add: picked_game_fields item_game_fields counter_def scenario_item_def)
qed

text \<open>
  C4. The visit of a collected item changes neither the item nor the game: no counter,
  no heal, no text. Over any run of frames, messages and resizes the list of items keeps
  its length, every item either stays as it was or has only its flag raised, and a
  collected item stays exactly as it was. What a frame does to the inventory, the health
  and the texts is what it would do were the collected items not in the list at all.
\<close>

theorem collected_item_is_never_picked_again:
  "(collected it \<longrightarrow> checkItem p it g = (it, g))
   \<and> length (items (fold step es g)) = length (items g)
   \<and> (i < length (items g) \<longrightarrow>
         (items (fold step es g) ! i = items g ! i
          \<or> items (fold step es g) ! i = (items g ! i)\<lparr>collected := True\<rparr>)
       \<and> (collected (items g ! i) \<longrightarrow> items (fold step es g) ! i = items g ! i))
   \<and> inventory (checkItemCollisions (g\<lparr>items := filter (\<lambda>it. \<not> collected it) (items g)\<rparr>)) =
       inventory (checkItemCollisions g)
   \<and> playerHealth (checkItemCollisions (g\<lparr>items := filter (\<lambda>it. \<not> collected it) (items g)\<rparr>)) =
       playerHealth (checkItemCollisions g)
   \<and> floatingTexts (checkItemCollisions (g\<lparr>items := filter (\<lambda>it. \<not> collected it) (items g)\<rparr>)) =
       floatingTexts (checkItemCollisions g)"
proof -
  have a: "collected it \<Longrightarrow> checkItem p it g = (it, g)"
    by (simp add: checkItem_eq)
  have b: "i < length (items g) \<Longrightarrow>
         items (fold step es g) ! i = items g ! i
          \<or> items (fold step es g) ! i = (items g ! i)\<lparr>collected := True\<rparr>"
    by (rule run_items_nth)
  have c: "i < length (items g) \<Longrightarrow> collected (items g ! i) \<Longrightarrow>
         items (fold step es g) ! i = items g ! i"
    by (rule run_items_collected)
  show ?thesis
    by (intro conjI impI)
       (erule a b | erule c, assumption
        | rule run_items_length checkItemCollisions_ignores_collected)+
qed

theorem collected_item_is_never_picked_again_witness:
  "collected (items picked_game ! 0) \<and> 0 < length (items picked_game)
   \<and> checkItem scenario_player (items picked_game ! 0) picked_game = (items picked_game ! 0, picked_game)
   \<and> items (fold step [Frame 5016, Message (PlayerLeft ''me''), Frame 5033] picked_game) ! 0 =
       scenario_item\<lparr>collected := True\<rparr>
   \<and> length (items (fold step [Frame 5016, Message (PlayerLeft ''me''), Frame 5033] picked_game)) = 50
   \<and> picked scenario_player picked_game scenario_item
   \<and> inventory (checkItemCollisions picked_game) = inventory picked_game"
proof -
  have l: "length (items picked_game) = 50" by (simp add: picked_game_fields)
  have z: "items picked_game ! 0 = scenario_item\<lparr>collected := True\<rparr>"
    by (simp add: picked_game_fields)
  have s: "itemSize picked_game = 20"
    by (simp add: picked_game_def render_itemSize item_game_fields)
  have n0: "filter (picked scenario_player picked_game) (map far_item [1..<50]) = []"
    by (rule filter_map_none) (rule not_picked_far_item, rule s)
  have n: "filter (picked scenario_player picked_game) (items picked_game) = []"
    using n0 by (simp add: picked_game_fields picked_def)
  have "inventory (checkItemCollisions picked_game) =
          inventory (snd (forEach_item scenario_player (items picked_game) picked_game))"
    by (simp add: checkItemCollisions_inventory picked_game_fields(1))
  also have "\<dots> = inventory picked_game"
    unfolding forEach_item_inventory n by simp
  finally have i: "inventory (checkItemCollisions picked_game) = inventory picked_game" .
  show ?thesis
    using collected_item_is_never_picked_again[of "items picked_game ! 0" scenario_player
        picked_game "[Frame 5016, Message (PlayerLeft ''me''), Frame 5033]" 0]
      l z i picked_scenario_item[OF s]
    by (simp add: scenario_item_def)
qed

text \<open>
  C1. The cooldown is tested once per frame, before the loop over the snakes, and the
  loop bites once for every snake in reach. In the session with two snakes in reach of
  the player, one frame at time 5000 (the cooldown long elapsed) takes the health from
  100 to 90 and pushes two texts: two damage events in one cooldown window.
\<close>

theorem two_snakes_bite_in_one_frame:
  "playerHealth snake_game = 100 \<and> lastSnakeDamage snake_game = 0
   \<and> length (filter (snake_touches scenario_player snake_game) (snakes snake_game)) = 2
   \<and> playerHealth (render 5000 snake_game) = 90
   \<and> floatingTexts (render 5000 snake_game) =
       [age_text (damage_text scenario_player), age_text (damage_text scenario_player)]"
proof -
  have t: "snake_touches scenario_player snake_game = snake_touches scenario_player (checkItemCollisions snake_game)"
    by (rule ext, rule sym, rule snake_touches_cong) (rule checkItemCollisions_sizes)+
  show ?thesis
    using bitten_game_fields(2,3)
    by (simp add: t snake_game_touches snake_game_fields bitten_game_def)
qed

text \<open>
  C7. After the acknowledgment the local player is the entry under the local id. A
  \<^verbatim>\<open>player_left\<close> that names the local id deletes the entry and leaves
  \<^verbatim>\<open>myPlayer\<close> set; a \<^verbatim>\<open>player_joined\<close> that names the local id replaces the
  entry and leaves \<^verbatim>\<open>myPlayer\<close> at the old record.
\<close>

theorem player_left_for_local_id_leaves_myPlayer:
  "game_playerId item_game = Some ''me''
   \<and> myPlayer item_game = Some scenario_player
   \<and> players item_game ''me'' = Some scenario_player
   \<and> myPlayer (handleServerMessage (PlayerLeft ''me'') item_game) = Some scenario_player
   \<and> players (handleServerMessage (PlayerLeft ''me'') item_game) ''me'' = None
   \<and> \<not> alias_ok (handleServerMessage (PlayerLeft ''me'') item_game)
   \<and> myPlayer (handleServerMessage
        (PlayerJoined (scenario_player\<lparr>player_x := 500\<rparr>) scenario_avatar) item_game) =
        Some scenario_player
   \<and> players (handleServerMessage
        (PlayerJoined (scenario_player\<lparr>player_x := 500\<rparr>) scenario_avatar) item_game) ''me'' =
        Some (scenario_player\<lparr>player_x := 500\<rparr>)
   \<and> scenario_player\<lparr>player_x := 500\<rparr> \<noteq> scenario_player"
proof -
  have l: "myPlayer (handleServerMessage (PlayerLeft ''me'') item_game) = Some scenario_player"
    "players (handleServerMessage (PlayerLeft ''me'') item_game) ''me'' = None"
    "game_playerId (handleServerMessage (PlayerLeft ''me'') item_game) = Some ''me''"
    by (simp_all add: handleServerMessage_def item_game_fields item_game_players)
  have j: "myPlayer (handleServerMessage
        (PlayerJoined (scenario_player\<lparr>player_x := 500\<rparr>) scenario_avatar) item_game) =
        Some scenario_player"
    "players (handleServerMessage
        (PlayerJoined (scenario_player\<lparr>player_x := 500\<rparr>) scenario_avatar) item_game) ''me'' =
        Some (scenario_player\<lparr>player_x := 500\<rparr>)"
    by (simp_all add: handleServerMessage_def Let_def item_game_fields item_game_players
          scenario_player_def)
  have n: "scenario_player\<lparr>player_x := 500\<rparr> \<noteq> scenario_player"
    by (simp add: scenario_player_def)
  have a: "\<not> alias_ok (handleServerMessage (PlayerLeft ''me'') item_game)"
    by (simp add: alias_ok_def l)
  show ?thesis
    using l j n a by (simp add: item_game_fields item_game_players)
qed

text \<open>
  C5, as the source computes it. With a local player, an uncollected item of the list is
  collected by the pickup check exactly when the distance that the source computes in
  double precision (every sum, difference, square and the square root rounded to the
  nearest double) is strictly below the bound computed the same way,
  \<open>(15 + itemSize / 2) - 0.1 * (itemSize / 2)\<close>. The visit of such an item is
  \<^verbatim>\<open>collectItem\<close>: the flag is raised, the counter of the item's type grows by one and
  the health becomes \<open>min 100 (h + 5)\<close>; the visit of any other uncollected item
  changes nothing. With item size 20 the bound is 24; for the player at \<open>(100, 100)\<close>,
  an item whose centre is at \<open>(105, 105)\<close> is at the computed distance \<open>fl (sqrt 50)\<close>,
  between 7.07 and 7.08, and an item whose corner is at \<open>(105, 105)\<close> at \<open>fl (sqrt 450)\<close>;
  both are picked up.
\<close>

theorem pickup_iff_computed_distance_below_bound:
  "(myPlayer g = Some p \<and> i < length (items g) \<and> \<not> collected (items g ! i) \<longrightarrow>
      (collected (items (checkItemCollisions g) ! i) \<longleftrightarrow>
         item_distance p (items g ! i) g < pickup_radius g))
   \<and> item_distance p it g =
       fl (sqrt (fl (fl ((fl (player_x p - fl (item_x it + fl (itemSize g / 2))))\<^sup>2) +
                     fl ((fl (player_y p - fl (item_y it + fl (itemSize g / 2))))\<^sup>2))))
   \<and> pickup_radius g =
       fl (fl (15 + fl (itemSize g / 2)) - fl (fl (itemSize g / 2) * double_0_1))
   \<and> (picked p g it \<longleftrightarrow> \<not> collected it \<and> item_distance p it g < pickup_radius g)
   \<and> (picked p g it \<longrightarrow>
        checkItem p it g = collectItem p it g
      \<and> collected (fst (checkItem p it g))
      \<and> counter (item_type it) (inventory (snd (checkItem p it g))) =
          counter (item_type it) (inventory g) + 1
      \<and> playerHealth (snd (checkItem p it g)) = min 100 (playerHealth g + 5))
   \<and> (\<not> picked p g it \<longrightarrow> checkItem p it g = (it, g))
   \<and> (itemSize g = 20 \<longrightarrow>
        pickup_radius g = 24
      \<and> item_distance scenario_player (scenario_item\<lparr>item_x := 95, item_y := 95\<rparr>) g =
          fl (sqrt 50)
      \<and> 7.07 < fl (sqrt 50) \<and> fl (sqrt 50) < 7.08
      \<and> picked scenario_player g (scenario_item\<lparr>item_x := 95, item_y := 95\<rparr>)
      \<and> item_distance scenario_player scenario_item g = fl (sqrt 450)
      \<and> picked scenario_player g scenario_item)"
proof -
  have a: "myPlayer g = Some p \<and> i < length (items g) \<and> \<not> collected (items g ! i) \<Longrightarrow>
      (collected (items (checkItemCollisions g) ! i) \<longleftrightarrow>
         item_distance p (items g ! i) g < pickup_radius g)"
    using checkItemCollisions_nth_collected[of g p i] by (simp add: picked_def)
  have d: "item_distance p it g =
       fl (sqrt (fl (fl ((fl (player_x p - fl (item_x it + fl (itemSize g / 2))))\<^sup>2) +
                     fl ((fl (player_y p - fl (item_y it + fl (itemSize g / 2))))\<^sup>2))))"
    by (simp only: item_distance_def Let_def)
  have r: "pickup_radius g =
       fl (fl (15 + fl (itemSize g / 2)) - fl (fl (itemSize g / 2) * double_0_1))"
    by (rule pickup_radius_def)
  have b: "picked p g it \<longleftrightarrow> \<not> collected it \<and> item_distance p it g < pickup_radius g"
    by (rule picked_def)
  have c: "itemSize g = 20 \<Longrightarrow>
      picked scenario_player g (scenario_item\<lparr>item_x := 95, item_y := 95\<rparr>)"
    using fl_sqrt_50(2)
    by (simp add: picked_def centred_item_distance pickup_radius_20) (simp add: scenario_item_def)
  show ?thesis
    by (intro conjI impI)
       (erule a checkItem_pickup checkItem_no_pickup pickup_radius_20 centred_item_distance
          scenario_item_distance picked_scenario_item c
        | rule b d r fl_sqrt_50)+
qed

theorem pickup_iff_computed_distance_below_bound_witness:
  "myPlayer item_game = Some scenario_player \<and> 0 < length (items item_game)
   \<and> items item_game ! 0 = scenario_item \<and> \<not> collected (items item_game ! 0)
   \<and> itemSize item_game = 20
   \<and> picked scenario_player item_game scenario_item
   \<and> \<not> picked scenario_player item_game (far_item 1)
   \<and> collected (items (checkItemCollisions item_game) ! 0)
   \<and> bananas (inventory item_game) = 0
   \<and> bananas (inventory (snd (checkItem scenario_player scenario_item item_game))) = 1
   \<and> playerHealth (snd (checkItem scenario_player scenario_item item_game)) = 100
   \<and> playerHealth (snd (checkItem scenario_player scenario_item (item_game\<lparr>playerHealth := 50\<rparr>))) = 55
   \<and> checkItem scenario_player (far_item 1) item_game = (far_item 1, item_game)
   \<and> bananas (inventory (checkItemCollisions item_game)) = 1
   \<and> playerHealth (checkItemCollisions item_game) = 100"
proof -
  have s: "itemSize item_game = 20" by (rule item_game_fields)
  have s': "itemSize (item_game\<lparr>playerHealth := 50\<rparr>) = 20" using s by simp
  have z: "items item_game ! 0 = scenario_item" "0 < length (items item_game)"
    by (simp_all add: item_game_items)
  have u: "\<not> collected scenario_item" by (simp add: scenario_item_def)
  have f: "\<not> picked scenario_player item_game (far_item 1)"
    by (rule not_picked_far_item) (rule s)
  have k: "picked scenario_player item_game scenario_item"
    "picked scenario_player (item_game\<lparr>playerHealth := 50\<rparr>) scenario_item"
    by (rule picked_scenario_item, rule s, rule picked_scenario_item, rule s')
  have w: "bananas (inventory (checkItemCollisions item_game)) = 1"
    "playerHealth (checkItemCollisions item_game) = 100"
    using picked_game_fields(2,4) by (simp_all add: picked_game_def render_fields
      checkSnakeCollisions_health checkItemCollisions_health item_game_fields item_game_picked heal_def)
  note T = pickup_iff_computed_distance_below_bound[of item_game scenario_player 0 scenario_item]
  note T50 = pickup_iff_computed_distance_below_bound[of "item_game\<lparr>playerHealth := 50\<rparr>"
      scenario_player 0 scenario_item]
  note Tfar = pickup_iff_computed_distance_below_bound[of item_game scenario_player 0 "far_item 1"]
  have m: "myPlayer item_game = Some scenario_player" by (rule item_game_fields)
  have kd: "item_distance scenario_player scenario_item item_game < pickup_radius item_game"
    using k(1) by (simp add: picked_def)
  have c: "collected (items (checkItemCollisions item_game) ! 0)"
    using T[THEN conjunct1, unfolded z(1)] m z(2) u kd by blast
  note P = T[THEN conjunct2, THEN conjunct2, THEN conjunct2, THEN conjunct2, THEN conjunct1]
  note P50 = T50[THEN conjunct2, THEN conjunct2, THEN conjunct2, THEN conjunct2, THEN conjunct1]
  note N = Tfar[THEN conjunct2, THEN conjunct2, THEN conjunct2, THEN conjunct2, THEN conjunct2,
      THEN conjunct1]
  have e: "counter (item_type scenario_item)
             (inventory (snd (checkItem scenario_player scenario_item item_game))) =
           counter (item_type scenario_item) (inventory item_game) + 1"
    "playerHealth (snd (checkItem scenario_player scenario_item item_game)) =
       min 100 (playerHealth item_game + 5)"
    using P k(1) by blast+
  have e50: "playerHealth (snd (checkItem scenario_player scenario_item (item_game\<lparr>playerHealth := 50\<rparr>))) =
       min 100 (playerHealth (item_game\<lparr>playerHealth := 50\<rparr>) + 5)"
    using P50 k(2) by blast
  have n: "checkItem scenario_player (far_item 1) item_game = (far_item 1, item_game)"
    using N f by blast
  have b0: "bananas (inventory item_game) = 0" by (simp add: item_game_fields)
  have b1: "bananas (inventory (snd (checkItem scenario_player scenario_item item_game))) = 1"
    using e(1) b0 by (simp add: counter_def scenario_item_def)
  have h1: "playerHealth (snd (checkItem scenario_player scenario_item item_game)) = 100"
    using e(2) by (simp add: item_game_fields)
  have h2: "playerHealth (snd (checkItem scenario_player scenario_item (item_game\<lparr>playerHealth := 50\<rparr>))) = 55"
    using e50 by simp
  show ?thesis
    using m z u s k f c b0 b1 h1 h2 n w by simp
qed

text \<open>
  The claim C5 as the specification states it, with the exact Euclidean distance, fails
  within rounding of the bound: in the reachable session \<open>edge_game\<close> the exact distance
  from the player to the centre of item 0 is below the exact bound 24, the computed
  square of the vertical difference rounds up to 575, the computed distance is 24, and
  the item is not collected.
\<close>

theorem pickup_missed_within_rounding_of_bound:
  "reachable edge_game
   \<and> myPlayer edge_game = Some edge_player
   \<and> items edge_game ! 0 = edge_item
   \<and> \<not> collected (items edge_game ! 0)
   \<and> itemSize edge_game = 20
   \<and> sqrt ((player_x edge_player - (item_x edge_item + 20 / 2))\<^sup>2 +
           (player_y edge_player - (item_y edge_item + 20 / 2))\<^sup>2)
        < (15 + 20 / 2) - 0.1 * (20 / 2)
   \<and> item_distance edge_player edge_item edge_game = 24
   \<and> pickup_radius edge_game = 24
   \<and> \<not> collected (items (checkItemCollisions edge_game) ! 0)
   \<and> \<not> collected (items (render 5000 edge_game) ! 0)"
proof -
  have s: "itemSize edge_game = 20" by (rule edge_game_fields)
  have m: "myPlayer edge_game = Some edge_player" by (rule edge_game_fields)
  have z: "items edge_game ! 0 = edge_item" "0 < length (items edge_game)"
    by (simp_all add: edge_game_items)
  have u: "\<not> collected edge_item" by (simp add: edge_item_def)
  have n: "\<not> picked edge_player edge_game edge_item" by (rule edge_not_picked) (rule s)
  have c: "\<not> collected (items (checkItemCollisions edge_game) ! 0)"
    using checkItemCollisions_nth_collected[OF m z(2)] z(1) u n by simp
  have r: "items (render 5000 edge_game) = items (checkItemCollisions edge_game)"
    by (rule render_fields)
  show ?thesis
    using reachable_edge_game m z(1) u s edge_exact_distance edge_item_distance[OF s]
      pickup_radius_20[OF s] c
    by (simp only: r simp_thms)
qed

text \<open>
  C6. Before a join has been acknowledged (the local id is still unset) a reachable state
  has no local player and no floating text, and a frame leaves it as it is: the pickup
  check and the snake check return at their guard, the aging finds nothing to age, and
  no item, health, inventory, cooldown or text changes. The two checks return at once
  whenever the local player is unset. A run of events without an acknowledged join ends
  in such a state.
\<close>

theorem frame_before_join_changes_nothing:
  "(reachable g \<and> game_playerId g = None \<longrightarrow>
        myPlayer g = None
      \<and> floatingTexts g = []
      \<and> checkItemCollisions g = g
      \<and> checkSnakeCollisions now g = g
      \<and> updateFloatingTexts g = g
      \<and> render now g = g)
   \<and> (myPlayer g = None \<longrightarrow> checkItemCollisions g = g \<and> checkSnakeCollisions now g = g)
   \<and> (list_all not_join es \<longrightarrow>
        game_playerId (fold step es (new_GameClient w h ri rs)) = None
      \<and> myPlayer (fold step es (new_GameClient w h ri rs)) = None
      \<and> render now (fold step es (new_GameClient w h ri rs)) =
          fold step es (new_GameClient w h ri rs))"
proof -
  have a: "reachable g \<and> game_playerId g = None \<Longrightarrow>
        myPlayer g = None
      \<and> floatingTexts g = []
      \<and> checkItemCollisions g = g
      \<and> checkSnakeCollisions now g = g
      \<and> updateFloatingTexts g = g
      \<and> render now g = g"
  proof -
    assume h: "reachable g \<and> game_playerId g = None"
    then have q: "myPlayer g = None" "floatingTexts g = []"
      using reachable_before_join[of g] by simp_all
    then show ?thesis by (simp add: no_player_checks no_texts_update)
  qed
  have b: "myPlayer g = None \<Longrightarrow> checkItemCollisions g = g \<and> checkSnakeCollisions now g = g"
    by (simp add: no_player_checks)
  have c: "list_all not_join es \<Longrightarrow>
        game_playerId (fold step es (new_GameClient w h ri rs)) = None
      \<and> myPlayer (fold step es (new_GameClient w h ri rs)) = None
      \<and> render now (fold step es (new_GameClient w h ri rs)) =
          fold step es (new_GameClient w h ri rs)"
  proof -
    assume l: "list_all not_join es"
    from run_before_join[OF l new_GameClient_fields(4) new_GameClient_playerId new_GameClient_fields(3)]
    have r: "myPlayer (fold step es (new_GameClient w h ri rs)) = None"
      "floatingTexts (fold step es (new_GameClient w h ri rs)) = []" by simp_all
    have i: "game_playerId (fold step es (new_GameClient w h ri rs)) = None"
      using run_playerId_before_join[OF l] by (simp add: new_GameClient_playerId)
    from r i show ?thesis by (simp add: no_player_checks no_texts_update)
  qed
  from a b c show ?thesis by blast
qed

theorem frame_before_join_changes_nothing_witness:
  "reachable (new_GameClient 800 600 item_draws far_snake_draws)
   \<and> game_playerId (new_GameClient 800 600 item_draws far_snake_draws) = None
   \<and> myPlayer (new_GameClient 800 600 item_draws far_snake_draws) = None
   \<and> render 16 (new_GameClient 800 600 item_draws far_snake_draws) =
       new_GameClient 800 600 item_draws far_snake_draws
   \<and> checkItemCollisions (new_GameClient 800 600 item_draws far_snake_draws) =
       new_GameClient 800 600 item_draws far_snake_draws
   \<and> checkSnakeCollisions 16 (new_GameClient 800 600 item_draws far_snake_draws) =
       new_GameClient 800 600 item_draws far_snake_draws
   \<and> list_all not_join
        [Frame 16, Message (PlayerJoined scenario_player scenario_avatar),
         Message (PlayersMoved scenario_batch), Resize 1024 768]
   \<and> render 33 (fold step
        [Frame 16, Message (PlayerJoined scenario_player scenario_avatar),
         Message (PlayersMoved scenario_batch), Resize 1024 768]
        (new_GameClient 800 600 item_draws far_snake_draws)) =
      fold step
        [Frame 16, Message (PlayerJoined scenario_player scenario_avatar),
         Message (PlayersMoved scenario_batch), Resize 1024 768]
        (new_GameClient 800 600 item_draws far_snake_draws)"
proof -
  let ?es = "[Frame 16, Message (PlayerJoined scenario_player scenario_avatar),
         Message (PlayersMoved scenario_batch), Resize 1024 768]"
  let ?g0 = "new_GameClient 800 600 item_draws far_snake_draws"
  have l: "list_all not_join ?es" by simp
  have r: "reachable ?g0" by (rule reach_start)
  have n: "game_playerId ?g0 = None" by (rule new_GameClient_playerId)
  note T1 = frame_before_join_changes_nothing[of ?g0 16 ?es 800 600 item_draws far_snake_draws,
      THEN conjunct1]
  note T3 = frame_before_join_changes_nothing[of ?g0 33 ?es 800 600 item_draws far_snake_draws,
      THEN conjunct2, THEN conjunct2]
  note T2 = frame_before_join_changes_nothing[of ?g0 16 ?es 800 600 item_draws far_snake_draws,
      THEN conjunct2, THEN conjunct1]
  have 1: "myPlayer ?g0 = None" "render 16 ?g0 = ?g0" using T1 r n by blast+
  have 2: "checkItemCollisions ?g0 = ?g0" "checkSnakeCollisions 16 ?g0 = ?g0"
    using T2 1(1) by blast+
  have 3: "render 33 (fold step ?es ?g0) = fold step ?es ?g0" using T3 l by blast
  show ?thesis
    using 1 2 3 l r n by (simp only: simp_thms)
qed

end
